theory Spec2Isabelle
  imports Complex_Main
begin

section \<open>JavaScript numbers\<close>

text \<open>
  A JavaScript number is modelled as a real number or \<open>NaN\<close>. Arithmetic on numbers is
  exact (no rounding, no overflow, no signed zero); \<open>NaN\<close> is absorbing and every
  comparison with \<open>NaN\<close> is false, as in JavaScript. The type has no infinities: a nonzero
  number divided by zero is \<open>\<plusminus>Infinity\<close> in JavaScript and is \<open>NaN\<close> here. Every
  division of the modelled code has a nonzero constant divisor, a divisor that is at
  least 1, a divisor guarded to be positive, or is the division \<open>0 / 0\<close> of an empty
  average, which is \<open>NaN\<close> in JavaScript too.
\<close>

datatype jsnum = Num real | NaN

instantiation jsnum :: "{plus, minus, uminus, times, inverse, ord}"
begin

fun plus_jsnum :: "jsnum \<Rightarrow> jsnum \<Rightarrow> jsnum" where
  "plus_jsnum (Num a) (Num b) = Num (a + b)"
| "plus_jsnum _ _ = NaN"

fun minus_jsnum :: "jsnum \<Rightarrow> jsnum \<Rightarrow> jsnum" where
  "minus_jsnum (Num a) (Num b) = Num (a - b)"
| "minus_jsnum _ _ = NaN"

fun uminus_jsnum :: "jsnum \<Rightarrow> jsnum" where
  "uminus_jsnum (Num a) = Num (- a)"
| "uminus_jsnum NaN = NaN"

fun times_jsnum :: "jsnum \<Rightarrow> jsnum \<Rightarrow> jsnum" where
  "times_jsnum (Num a) (Num b) = Num (a * b)"
| "times_jsnum _ _ = NaN"

fun divide_jsnum :: "jsnum \<Rightarrow> jsnum \<Rightarrow> jsnum" where
  "divide_jsnum (Num a) (Num b) = (if b = 0 then NaN else Num (a / b))"
| "divide_jsnum _ _ = NaN"

fun inverse_jsnum :: "jsnum \<Rightarrow> jsnum" where
  "inverse_jsnum (Num a) = (if a = 0 then NaN else Num (1 / a))"
| "inverse_jsnum NaN = NaN"

fun less_jsnum :: "jsnum \<Rightarrow> jsnum \<Rightarrow> bool" where
  "less_jsnum (Num a) (Num b) = (a < b)"
| "less_jsnum _ _ = False"

fun less_eq_jsnum :: "jsnum \<Rightarrow> jsnum \<Rightarrow> bool" where
  "less_eq_jsnum (Num a) (Num b) = (a \<le> b)"
| "less_eq_jsnum _ _ = False"

instance ..

end

fun is_num :: "jsnum \<Rightarrow> bool" where
  "is_num (Num a) = True"
| "is_num NaN = False"

fun Math_min :: "jsnum \<Rightarrow> jsnum \<Rightarrow> jsnum" where
  "Math_min (Num a) (Num b) = Num (min a b)"
| "Math_min _ _ = NaN"

fun Math_sqrt :: "jsnum \<Rightarrow> jsnum" where
  "Math_sqrt (Num a) = (if a < 0 then NaN else Num (sqrt a))"
| "Math_sqrt NaN = NaN"

fun Math_sin :: "jsnum \<Rightarrow> jsnum" where
  "Math_sin (Num a) = Num (sin a)"
| "Math_sin NaN = NaN"

fun Math_cos :: "jsnum \<Rightarrow> jsnum" where
  "Math_cos (Num a) = Num (cos a)"
| "Math_cos NaN = NaN"

fun Math_floor :: "jsnum \<Rightarrow> jsnum" where
  "Math_floor (Num a) = Num (of_int \<lfloor>a\<rfloor>)"
| "Math_floor NaN = NaN"

text \<open>\<open>Math.pow(a, 2)\<close>, the only use of \<open>Math.pow\<close> in the simulation.\<close>

definition Math_pow2 :: "jsnum \<Rightarrow> jsnum" where
  "Math_pow2 a = a * a"

text \<open>The angle of the point \<open>(x, y)\<close>, in \<open>(-\<pi>, \<pi>]\<close>, and 0 at the origin.\<close>

definition atan2 :: "real \<Rightarrow> real \<Rightarrow> real" where
  "atan2 y x =
     (if 0 < x then arctan (y / x)
      else if x < 0 then (if 0 \<le> y then arctan (y / x) + pi else arctan (y / x) - pi)
      else if 0 < y then pi / 2
      else if y < 0 then - (pi / 2)
      else 0)"

fun Math_atan2 :: "jsnum \<Rightarrow> jsnum \<Rightarrow> jsnum" where
  "Math_atan2 (Num y) (Num x) = Num (atan2 y x)"
| "Math_atan2 _ _ = NaN"

subsection \<open>Typed arrays\<close>

text \<open>
  A \<open>Float32Array\<close> is a list of numbers of fixed length. A store into it converts the
  value to the nearest float32, ties to the even significand, as \<open>Math.fround\<close> does:
  a float32 is a multiple \<open>m * 2^q\<close> of a power of two with \<open>|m| \<le> 2^24\<close>, where
  \<open>q = e - 23\<close> for the binary exponent \<open>e\<close> of the value, and \<open>q = -149\<close> for the values
  below \<open>2^-126\<close> (the subnormal ones). \<open>NaN\<close> is stored as \<open>NaN\<close>. As the type has no
  infinities, a value beyond the largest float32 keeps its 24 significant bits here,
  where JavaScript stores \<open>\<plusminus>Infinity\<close>.

  \<open>log2_nat n\<close> is \<open>\<lfloor>log\<^sub>2 n\<rfloor>\<close> for \<open>n \<ge> 1\<close>, \<open>ilog2 x\<close> is the binary exponent
  \<open>\<lfloor>log\<^sub>2 |x|\<rfloor>\<close> of \<open>x \<noteq> 0\<close>, and \<open>pow2 q\<close> is \<open>2^q\<close>.
\<close>

fun log2_nat :: "nat \<Rightarrow> nat" where
  "log2_nat n = (if n < 2 then 0 else Suc (log2_nat (n div 2)))"

declare log2_nat.simps [simp del]

definition ilog2 :: "real \<Rightarrow> int" where
  "ilog2 x =
     (if 1 \<le> abs x then int (log2_nat (nat \<lfloor>abs x\<rfloor>))
      else - int (Suc (log2_nat (nat (\<lceil>1 / abs x\<rceil> - 1)))))"

definition pow2 :: "int \<Rightarrow> real" where
  "pow2 q = (if 0 \<le> q then 2 ^ nat q else 1 / 2 ^ nat (- q))"

definition round_half_even :: "real \<Rightarrow> int" where
  "round_half_even r =
     (let f = \<lfloor>r\<rfloor>; d = r - of_int f
      in if d < 1 / 2 then f else if 1 / 2 < d then f + 1 else if even f then f else f + 1)"

definition fround :: "real \<Rightarrow> real" where
  "fround x =
     (if x = 0 then 0
      else (let q = max (ilog2 x - 23) (- 149)
            in of_int (round_half_even (x / pow2 q)) * pow2 q))"

fun Math_fround :: "jsnum \<Rightarrow> jsnum" where
  "Math_fround (Num a) = Num (fround a)"
| "Math_fround NaN = NaN"

text \<open>
  Reading a typed array out of range gives \<open>undefined\<close>, which arithmetic turns into
  \<open>NaN\<close>; writing out of range is ignored.
\<close>

definition f32get :: "jsnum list \<Rightarrow> nat \<Rightarrow> jsnum" where
  "f32get a i = (if i < length a then a ! i else NaN)"

definition f32set :: "jsnum list \<Rightarrow> nat \<Rightarrow> jsnum \<Rightarrow> jsnum list" where
  "f32set a i v = (if i < length a then a[i := Math_fround v] else a)"

definition Float32Array :: "nat \<Rightarrow> jsnum list" where
  "Float32Array n = replicate n (Num 0)"

section \<open>Errors and loops\<close>

datatype error = TypeError | RangeError

text \<open>A counted loop whose body may throw: the first exception ends the loop.\<close>

fun forM :: "nat list \<Rightarrow> (nat \<Rightarrow> 's \<Rightarrow> error + 's) \<Rightarrow> 's \<Rightarrow> error + 's" where
  "forM [] body s = Inr s"
| "forM (i # is) body s = (case body i s of Inl e \<Rightarrow> Inl e | Inr s' \<Rightarrow> forM is body s')"

section \<open>The simulation core (FluidSimulation)\<close>

record particle =
  p_x :: jsnum
  p_y :: jsnum
  p_vx :: jsnum
  p_vy :: jsnum
  p_life :: jsnum
  p_color :: jsnum
  p_size :: jsnum

record params =
  viscosity :: jsnum
  density :: jsnum
  speed :: jsnum
  particleCount :: nat
  resolution :: jsnum

text \<open>
  The parameter object handed to the constructor: a key may be absent. The constructor
  builds \<open>{key: params.key || default, ..., ...params}\<close>, so a key that is present keeps the
  caller's value and an absent key gets the default.
\<close>

record params_arg =
  arg_viscosity :: "jsnum option"
  arg_density :: "jsnum option"
  arg_speed :: "jsnum option"
  arg_particleCount :: "nat option"
  arg_resolution :: "jsnum option"

record fluid =
  width :: jsnum
  height :: jsnum
  params :: params
  particles :: "particle list"
  velocityField :: "(jsnum \<times> jsnum) list"
  pressureField :: "jsnum list"
  useGPU :: bool
  useWorkers :: bool
  useSpatialHashing :: bool
  spatialHash :: "(jsnum \<times> jsnum) \<rightharpoonup> nat list"
  cellSize :: jsnum
  forces :: "jsnum list"
  positions :: "jsnum list"
  velocities :: "jsnum list"
  currentScene :: string
  audioInfluence :: jsnum

text \<open>
  \<open>getParticleColor\<close>: the colour is the string \<open>hsl(hue, 70%, 60%)\<close>, which the hue
  determines; the model keeps the hue, \<open>(index * 137.508) % 360\<close>.
\<close>

definition getParticleColor :: "nat \<Rightarrow> jsnum" where
  "getParticleColor index =
     (let h = real index * 137.508 in Num (h - 360 * of_int \<lfloor>h / 360\<rfloor>))"

text \<open>
  One iteration of the loop of \<open>initializeParticles\<close>. \<open>rnd\<close> is the sequence of values
  that \<open>Math.random()\<close> returns during the call, five for each particle.
\<close>

definition initializeParticle :: "(nat \<Rightarrow> real) \<Rightarrow> nat \<Rightarrow> fluid \<Rightarrow> error + fluid" where
  "initializeParticle rnd i s =
     (let p = \<lparr> p_x = Num (rnd (5 * i)) * width s,
                p_y = Num (rnd (5 * i + 1)) * height s,
                p_vx = (Num (rnd (5 * i + 2)) - Num 0.5) * Num 2,
                p_vy = (Num (rnd (5 * i + 3)) - Num 0.5) * Num 2,
                p_life = Num 1.0,
                p_color = getParticleColor i,
                p_size = Num (rnd (5 * i + 4)) * Num 3 + Num 1 \<rparr>;
          ps = particles s @ [p]
      in if i < length ps then
           Inr (s\<lparr> particles := ps,
                   positions := f32set (f32set (positions s) (i * 2) (p_x (ps ! i)))
                                  (i * 2 + 1) (p_y (ps ! i)),
                   velocities := f32set (f32set (velocities s) (i * 2) (p_vx (ps ! i)))
                                  (i * 2 + 1) (p_vy (ps ! i)) \<rparr>)
         else Inl TypeError)"

definition initializeParticles :: "(nat \<Rightarrow> real) \<Rightarrow> fluid \<Rightarrow> error + fluid" where
  "initializeParticles rnd s =
     forM [0 ..< particleCount (params s)] (initializeParticle rnd) (s\<lparr> particles := [] \<rparr>)"

text \<open>
  \<open>initializeFields\<close>: \<open>new Array(n)\<close> throws a RangeError unless \<open>n\<close> is an integer
  from 0 to \<open>2^32 - 1\<close>; here \<open>n\<close> is a product of two floors, an integer or \<open>NaN\<close>.
\<close>

definition initializeFields :: "fluid \<Rightarrow> error + fluid" where
  "initializeFields s =
     (let fieldWidth = Math_floor (width s / Num 10);
          fieldHeight = Math_floor (height s / Num 10)
      in case fieldWidth * fieldHeight of
           NaN \<Rightarrow> Inl RangeError
         | Num n \<Rightarrow>
             if n < 0 \<or> 4294967295 < n then Inl RangeError
             else Inr (s\<lparr> velocityField := replicate (nat \<lfloor>n\<rfloor>) (Num 0, Num 0),
                           pressureField := Float32Array (nat \<lfloor>n\<rfloor>) \<rparr>))"

definition or_default :: "'a option \<Rightarrow> 'a \<Rightarrow> 'a" where
  "or_default v d = (case v of None \<Rightarrow> d | Some a \<Rightarrow> a)"

definition FluidSimulation :: "jsnum \<Rightarrow> jsnum \<Rightarrow> params_arg \<Rightarrow> (nat \<Rightarrow> real) \<Rightarrow> error + fluid" where
  "FluidSimulation w h arg rnd =
     (let ps = \<lparr> viscosity = or_default (arg_viscosity arg) (Num 0.0001),
                 density = or_default (arg_density arg) (Num 1.0),
                 speed = or_default (arg_speed arg) (Num 1.0),
                 particleCount = or_default (arg_particleCount arg) 1000,
                 resolution = or_default (arg_resolution arg) (Num 1.0) \<rparr>;
          s = \<lparr> width = w, height = h, params = ps,
                particles = [], velocityField = [], pressureField = [],
                useGPU = True, useWorkers = True, useSpatialHashing = True,
                spatialHash = Map.empty, cellSize = Num 20,
                forces = Float32Array (particleCount ps * 2),
                positions = Float32Array (particleCount ps * 2),
                velocities = Float32Array (particleCount ps * 2),
                currentScene = ''default'', audioInfluence = Num 0 \<rparr>
      in case initializeParticles rnd s of
           Inl e \<Rightarrow> Inl e
         | Inr s' \<Rightarrow> initializeFields s')"

subsection \<open>Forces\<close>

text \<open>
  The \<open>switch\<close> of \<open>applyParticleForces\<close> on the scene name; \<open>now\<close> is the value of
  \<open>Date.now()\<close> when the force of this particle is computed.
\<close>

definition sceneForce :: "real \<Rightarrow> particle \<Rightarrow> fluid \<Rightarrow> jsnum \<times> jsnum" where
  "sceneForce now particle s =
     (if currentScene s = ''vortex'' then
        (let centerX = width s / Num 2;
             centerY = height s / Num 2;
             dx = p_x particle - centerX;
             dy = p_y particle - centerY;
             distance = Math_sqrt (dx * dx + dy * dy)
         in if Num 0 < distance then
              (let strength = Num 100 / (distance + Num 1)
               in (- dy * strength * audioInfluence s, dx * strength * audioInfluence s))
            else (Num 0, Num 0))
      else if currentScene s = ''wave'' then
        (let waveForce = Math_sin (p_x particle * Num 0.01 + Num now * Num 0.001) * Num 50
         in (Num 0, waveForce * audioInfluence s))
      else if currentScene s = ''spiral'' then
        (let spiralAngle = Math_atan2 (p_y particle - height s / Num 2)
                                       (p_x particle - width s / Num 2);
             spiralRadius = Math_sqrt (Math_pow2 (p_x particle - width s / Num 2)
                                       + Math_pow2 (p_y particle - height s / Num 2))
         in (Math_cos (spiralAngle + spiralRadius * Num 0.01) * Num 30 * audioInfluence s,
             Math_sin (spiralAngle + spiralRadius * Num 0.01) * Num 30 * audioInfluence s))
      else (Num 0, Num 0))"

text \<open>The force of one particle: the scene force minus the viscosity drag.\<close>

definition particleForce :: "real \<Rightarrow> particle \<Rightarrow> fluid \<Rightarrow> jsnum \<times> jsnum" where
  "particleForce now particle s =
     (let (fx, fy) = sceneForce now particle s
      in (fx - p_vx particle * viscosity (params s),
          fy - p_vy particle * viscosity (params s)))"

definition applyParticleForces :: "real \<Rightarrow> particle \<Rightarrow> nat \<Rightarrow> fluid \<Rightarrow> fluid" where
  "applyParticleForces now particle index s =
     (let (fx, fy) = particleForce now particle s
      in s\<lparr> forces := f32set (f32set (forces s) (index * 2) fx) (index * 2 + 1) fy \<rparr>)"

subsection \<open>Boundaries, spatial hash, audio\<close>

definition handleBoundaries :: "fluid \<Rightarrow> particle \<Rightarrow> particle" where
  "handleBoundaries s particle =
     (let damping = Num 0.8;
          p1 = (if p_x particle < Num 0 then
                  particle\<lparr> p_x := Num 0, p_vx := - p_vx particle * damping \<rparr>
                else if width s < p_x particle then
                  particle\<lparr> p_x := width s, p_vx := - p_vx particle * damping \<rparr>
                else particle)
      in if p_y p1 < Num 0 then
           p1\<lparr> p_y := Num 0, p_vy := - p_vy p1 * damping \<rparr>
         else if height s < p_y p1 then
           p1\<lparr> p_y := height s, p_vy := - p_vy p1 * damping \<rparr>
         else p1)"

text \<open>The key of a cell is the string \<open>cellX,cellY\<close>; the model keeps the pair.\<close>

definition cellKey :: "fluid \<Rightarrow> particle \<Rightarrow> jsnum \<times> jsnum" where
  "cellKey s particle =
     (Math_floor (p_x particle / cellSize s), Math_floor (p_y particle / cellSize s))"

definition updateSpatialHash :: "particle \<Rightarrow> nat \<Rightarrow> fluid \<Rightarrow> fluid" where
  "updateSpatialHash particle index s =
     (let key = cellKey s particle;
          h = (if spatialHash s key = None then (spatialHash s)(key \<mapsto> []) else spatialHash s)
      in s\<lparr> spatialHash := h(key \<mapsto> (case h key of None \<Rightarrow> [] | Some l \<Rightarrow> l) @ [index]) \<rparr>)"

text \<open>
  \<open>updateAudioInfluence\<close>: the sum of an empty array is 0 and its length is 0, and
  \<open>0 / 0\<close> is \<open>NaN\<close>.
\<close>

definition updateAudioInfluence :: "jsnum list \<Rightarrow> fluid \<Rightarrow> fluid" where
  "updateAudioInfluence audioData s =
     (let sum = foldl (+) (Num 0) audioData
      in s\<lparr> audioInfluence := (sum / Num (real (length audioData))) / Num 255 \<rparr>)"

definition applySceneForces :: "jsnum \<Rightarrow> fluid \<Rightarrow> fluid" where
  "applySceneForces dt s = s"

definition updateVelocityField :: "jsnum \<Rightarrow> fluid \<Rightarrow> fluid" where
  "updateVelocityField dt s =
     s\<lparr> velocityField := map (\<lambda>(vx, vy). (vx * Num 0.95, vy * Num 0.95)) (velocityField s) \<rparr>"

subsection \<open>The frame update\<close>

text \<open>
  The body of the loop of \<open>updateParticleBatch\<close> for the index \<open>i\<close>. The particle is an
  object shared with the array, so every assignment to it is seen through
  \<open>particles[i]\<close>; reading a field of \<open>particles[i]\<close> out of range throws.
  \<open>clock i\<close> is the value of \<open>Date.now()\<close> while particle \<open>i\<close> is processed.
\<close>

definition integrate :: "jsnum \<Rightarrow> jsnum \<Rightarrow> jsnum \<Rightarrow> fluid \<Rightarrow> particle \<Rightarrow> particle" where
  "integrate fx fy dt s particle =
     (let p1 = particle\<lparr> p_vx := p_vx particle + fx * dt, p_vy := p_vy particle + fy * dt \<rparr>;
          p2 = p1\<lparr> p_vx := p_vx p1 * Num 0.99, p_vy := p_vy p1 * Num 0.99 \<rparr>
      in p2\<lparr> p_x := p_x p2 + p_vx p2 * dt * speed (params s),
              p_y := p_y p2 + p_vy p2 * dt * speed (params s) \<rparr>)"

definition updateParticle :: "jsnum \<Rightarrow> (nat \<Rightarrow> real) \<Rightarrow> nat \<Rightarrow> fluid \<Rightarrow> error + fluid" where
  "updateParticle dt clock i s =
     (if i < length (particles s) then
        (let particle = particles s ! i;
             s1 = applyParticleForces (clock i) particle i s;
             p3 = integrate (f32get (forces s1) (i * 2)) (f32get (forces s1) (i * 2 + 1)) dt s1 particle;
             p4 = handleBoundaries s1 p3;
             s2 = s1\<lparr> particles := (particles s1)[i := p4] \<rparr>;
             s3 = (if useSpatialHashing s2 then updateSpatialHash p4 i s2 else s2)
         in Inr (s3\<lparr> positions := f32set (f32set (positions s3) (i * 2) (p_x p4)) (i * 2 + 1) (p_y p4),
                     velocities := f32set (f32set (velocities s3) (i * 2) (p_vx p4)) (i * 2 + 1) (p_vy p4) \<rparr>))
      else Inl TypeError)"

definition updateParticleBatch :: "nat \<Rightarrow> nat \<Rightarrow> jsnum \<Rightarrow> (nat \<Rightarrow> real) \<Rightarrow> fluid \<Rightarrow> error + fluid" where
  "updateParticleBatch start end' dt clock s = forM [start ..< end'] (updateParticle dt clock) s"

text \<open>
  The loop of \<open>update\<close>: \<open>for (let i = 0; i < this.particles.length; i += batchSize)\<close>
  with \<open>batchSize = 100\<close>.
\<close>

function update_loop :: "nat \<Rightarrow> jsnum \<Rightarrow> (nat \<Rightarrow> real) \<Rightarrow> fluid \<Rightarrow> error + fluid" where
  "update_loop i dt clock s =
     (if i < length (particles s) then
        (case updateParticleBatch i (min (i + 100) (length (particles s))) dt clock s of
           Inl e \<Rightarrow> Inl e
         | Inr s' \<Rightarrow> update_loop (i + 100) dt clock s')
      else Inr s)"
  by pat_completeness auto

lemma updateParticle_length:
  "updateParticle dt clock i s = Inr s' \<Longrightarrow> length (particles s') = length (particles s)"
  by (auto simp: updateParticle_def applyParticleForces_def updateSpatialHash_def Let_def
      split: if_splits prod.splits)

lemma forM_length:
  assumes "\<And>i s s'. body i s = Inr s' \<Longrightarrow> length (particles s') = length (particles s)"
  shows "forM is body s = Inr s' \<Longrightarrow> length (particles s') = length (particles s)"
proof (induction "is" arbitrary: s)
  case Nil
  then show ?case by simp
next
  case (Cons i "is")
  then show ?case using assms by (auto split: sum.splits)
qed

lemma updateParticleBatch_length:
  "updateParticleBatch a b dt clock s = Inr s' \<Longrightarrow> length (particles s') = length (particles s)"
  unfolding updateParticleBatch_def by (rule forM_length[OF updateParticle_length])

termination update_loop
  by (relation "measure (\<lambda>(i, dt, clock, s). length (particles s) - i)")
     (auto dest: updateParticleBatch_length)

declare update_loop.simps [simp del]

text \<open>
  \<open>update(deltaTime, audioData = null)\<close>. \<open>audioData\<close> is \<open>None\<close> for \<open>null\<close> or a missing
  argument; every array, the empty one too, is truthy.
\<close>

definition update :: "jsnum \<Rightarrow> jsnum list option \<Rightarrow> (nat \<Rightarrow> real) \<Rightarrow> fluid \<Rightarrow> error + fluid" where
  "update deltaTime audioData clock s =
     (let dt = Math_min (deltaTime / Num 1000) (Num 0.016);
          s1 = (case audioData of None \<Rightarrow> s | Some a \<Rightarrow> updateAudioInfluence a s);
          s2 = (if useSpatialHashing s1 then s1\<lparr> spatialHash := Map.empty \<rparr> else s1)
      in case update_loop 0 dt clock s2 of
           Inl e \<Rightarrow> Inl e
         | Inr s3 \<Rightarrow> Inr (updateVelocityField dt (applySceneForces dt s3)))"

subsection \<open>Interaction and configuration\<close>

text \<open>The body of the loop of \<open>addForce\<close> for one particle.\<close>

definition addForceParticle :: "jsnum \<Rightarrow> jsnum \<Rightarrow> jsnum \<Rightarrow> particle \<Rightarrow> particle" where
  "addForceParticle x y strength particle =
     (let radius = Num 50;
          radiusSquared = radius * radius;
          dx = p_x particle - x;
          dy = p_y particle - y;
          distanceSquared = dx * dx + dy * dy
      in if distanceSquared < radiusSquared \<and> Num 0 < distanceSquared then
           (let distance = Math_sqrt distanceSquared;
                force = (radius - distance) / radius * strength * Num 100
            in particle\<lparr> p_vx := p_vx particle + (dx / distance) * force,
                         p_vy := p_vy particle + (dy / distance) * force \<rparr>)
         else particle)"

definition addForce :: "jsnum \<Rightarrow> jsnum \<Rightarrow> jsnum \<Rightarrow> fluid \<Rightarrow> fluid" where
  "addForce x y strength s = s\<lparr> particles := map (addForceParticle x y strength) (particles s) \<rparr>"

definition setScene :: "string \<Rightarrow> fluid \<Rightarrow> fluid" where
  "setScene sceneName s = s\<lparr> currentScene := sceneName \<rparr>"

definition setViscosity :: "jsnum \<Rightarrow> fluid \<Rightarrow> fluid" where
  "setViscosity v s = s\<lparr> params := (params s)\<lparr> viscosity := v * Num 0.001 \<rparr> \<rparr>"

definition setDensity :: "jsnum \<Rightarrow> fluid \<Rightarrow> fluid" where
  "setDensity v s = s\<lparr> params := (params s)\<lparr> density := v \<rparr> \<rparr>"

definition setSpeed :: "jsnum \<Rightarrow> fluid \<Rightarrow> fluid" where
  "setSpeed v s = s\<lparr> params := (params s)\<lparr> speed := v * Num 2 \<rparr> \<rparr>"

definition setResolution :: "jsnum \<Rightarrow> fluid \<Rightarrow> fluid" where
  "setResolution r s = s\<lparr> params := (params s)\<lparr> resolution := r \<rparr> \<rparr>"

definition setParticleCount :: "nat \<Rightarrow> (nat \<Rightarrow> real) \<Rightarrow> fluid \<Rightarrow> error + fluid" where
  "setParticleCount count rnd s =
     (if count \<noteq> particleCount (params s) then
        initializeParticles rnd
          (s\<lparr> params := (params s)\<lparr> particleCount := count \<rparr>,
              forces := Float32Array (count * 2),
              positions := Float32Array (count * 2),
              velocities := Float32Array (count * 2) \<rparr>)
      else Inr s)"

definition resize :: "jsnum \<Rightarrow> jsnum \<Rightarrow> fluid \<Rightarrow> error + fluid" where
  "resize w h s = initializeFields (s\<lparr> width := w, height := h \<rparr>)"

section \<open>The frame update as the specification words it\<close>

text \<open>
  The steps that the specification names for one particle, in its order: velocity
  integration \<open>v += f * dt\<close>, damping \<open>v *= 0.99\<close>, position integration
  \<open>p += v * dt * speed\<close>, boundary handling, and the cell of the spatial hash.
  These definitions follow the words of the specification and use no function of the
  source; the theorems below compare them with \<open>update\<close> as the source has it.
\<close>

definition spec_integrateVelocity :: "jsnum \<times> jsnum \<Rightarrow> jsnum \<Rightarrow> particle \<Rightarrow> particle" where
  "spec_integrateVelocity f dt p = p\<lparr> p_vx := p_vx p + fst f * dt, p_vy := p_vy p + snd f * dt \<rparr>"

definition spec_damp :: "particle \<Rightarrow> particle" where
  "spec_damp p = p\<lparr> p_vx := p_vx p * Num 0.99, p_vy := p_vy p * Num 0.99 \<rparr>"

definition spec_integratePosition :: "jsnum \<Rightarrow> jsnum \<Rightarrow> particle \<Rightarrow> particle" where
  "spec_integratePosition dt sp p = p\<lparr> p_x := p_x p + p_vx p * dt * sp, p_y := p_y p + p_vy p * dt * sp \<rparr>"

text \<open>
  Boundary handling, for one axis: a coordinate below 0 becomes 0, a coordinate above the
  size of the canvas becomes that size, and in both cases the velocity along the axis
  becomes \<open>-v * 0.8\<close>; otherwise nothing changes.
\<close>

definition spec_wall :: "jsnum \<Rightarrow> jsnum \<times> jsnum \<Rightarrow> jsnum \<times> jsnum" where
  "spec_wall size' c =
     (if fst c < Num 0 then (Num 0, - snd c * Num 0.8)
      else if size' < fst c then (size', - snd c * Num 0.8)
      else c)"

definition spec_boundary :: "jsnum \<Rightarrow> jsnum \<Rightarrow> particle \<Rightarrow> particle" where
  "spec_boundary w h p =
     p\<lparr> p_x := fst (spec_wall w (p_x p, p_vx p)), p_vx := snd (spec_wall w (p_x p, p_vx p)),
        p_y := fst (spec_wall h (p_y p, p_vy p)), p_vy := snd (spec_wall h (p_y p, p_vy p)) \<rparr>"

text \<open>The steps in their order, for the force \<open>f\<close>.\<close>

definition spec_step :: "jsnum \<times> jsnum \<Rightarrow> jsnum \<Rightarrow> jsnum \<Rightarrow> jsnum \<Rightarrow> jsnum \<Rightarrow> particle \<Rightarrow> particle" where
  "spec_step f dt sp w h p =
     spec_boundary w h (spec_integratePosition dt sp (spec_damp (spec_integrateVelocity f dt p)))"

text \<open>The cell of a particle: \<open>(\<lfloor>x / cellSize\<rfloor>, \<lfloor>y / cellSize\<rfloor>)\<close> with the cell size 20.\<close>

definition spec_cell :: "particle \<Rightarrow> jsnum \<times> jsnum" where
  "spec_cell p = (Math_floor (p_x p / Num 20), Math_floor (p_y p / Num 20))"

text \<open>
  The spatial hash of the particles with index below \<open>j\<close>: every cell that holds a
  particle is mapped to the indices of its particles, in increasing order.
\<close>

definition spec_hash :: "(nat \<Rightarrow> jsnum \<times> jsnum) \<Rightarrow> nat \<Rightarrow> ((jsnum \<times> jsnum) \<rightharpoonup> nat list)" where
  "spec_hash cell j =
     (\<lambda>key. let l = filter (\<lambda>k. cell k = key) [0 ..< j] in if l = [] then None else Some l)"

text \<open>The index ranges of the batches of 100.\<close>

definition batchRanges :: "nat \<Rightarrow> (nat \<times> nat) list" where
  "batchRanges n = map (\<lambda>k. (k * 100, min (k * 100 + 100) n)) [0 ..< (n + 99) div 100]"

text \<open>A particle is within the radius of \<open>addForce(x, y, strength)\<close> when its distance from
  \<open>(x, y)\<close> is below 50.\<close>

definition within_radius :: "jsnum \<Rightarrow> jsnum \<Rightarrow> particle \<Rightarrow> bool" where
  "within_radius x y p \<longleftrightarrow>
     Math_sqrt ((p_x p - x) * (p_x p - x) + (p_y p - y) * (p_y p - y)) < Num 50"

section \<open>What the loops of the simulation keep true\<close>

text \<open>
  The force that \<open>applyParticleForces\<close> leaves in the \<open>forces\<close> buffer for a particle, and
  the particle that one iteration of \<open>updateParticleBatch\<close> makes of it.
\<close>

definition stored_force :: "real \<Rightarrow> particle \<Rightarrow> fluid \<Rightarrow> jsnum \<times> jsnum" where
  "stored_force now p s =
     (Math_fround (fst (particleForce now p s)), Math_fround (snd (particleForce now p s)))"

definition particle_step :: "jsnum \<Rightarrow> real \<Rightarrow> fluid \<Rightarrow> particle \<Rightarrow> particle" where
  "particle_step dt now s p =
     handleBoundaries s (integrate (fst (stored_force now p s)) (snd (stored_force now p s)) dt s p)"

text \<open>The typed buffers have two entries for each particle.\<close>

definition sized :: "fluid \<Rightarrow> bool" where
  "sized s \<longleftrightarrow> length (forces s) = 2 * length (particles s)
     \<and> length (positions s) = 2 * length (particles s)
     \<and> length (velocities s) = 2 * length (particles s)"

text \<open>One insertion into the spatial hash.\<close>

definition hash_add :: "jsnum \<times> jsnum \<Rightarrow> nat \<Rightarrow> ((jsnum \<times> jsnum) \<rightharpoonup> nat list) \<Rightarrow> ((jsnum \<times> jsnum) \<rightharpoonup> nat list)" where
  "hash_add key i h = h(key \<mapsto> (case h key of None \<Rightarrow> [] | Some l \<Rightarrow> l) @ [i])"

text \<open>The fields that the force law, the boundaries and the cell key read.\<close>

definition env :: "fluid \<Rightarrow> jsnum \<times> jsnum \<times> params \<times> string \<times> jsnum \<times> jsnum \<times> bool" where
  "env s = (width s, height s, params s, currentScene s, audioInfluence s, cellSize s,
            useSpatialHashing s)"

text \<open>The state of the loop of \<open>update\<close> when the particles below \<open>j\<close> are done.\<close>

definition upd_inv :: "jsnum \<Rightarrow> (nat \<Rightarrow> real) \<Rightarrow> fluid \<Rightarrow> nat \<Rightarrow> fluid \<Rightarrow> bool" where
  "upd_inv dt clock s0 j t \<longleftrightarrow>
     env t = env s0
   \<and> length (particles t) = length (particles s0)
   \<and> sized t
   \<and> (\<forall>k < length (particles s0).
         particles t ! k = (if k < j then particle_step dt (clock k) s0 (particles s0 ! k)
                            else particles s0 ! k))
   \<and> (\<forall>k < j. forces t ! (k * 2) = fst (stored_force (clock k) (particles s0 ! k) s0)
              \<and> forces t ! (k * 2 + 1) = snd (stored_force (clock k) (particles s0 ! k) s0)
              \<and> positions t ! (k * 2) = Math_fround (p_x (particles t ! k))
              \<and> positions t ! (k * 2 + 1) = Math_fround (p_y (particles t ! k))
              \<and> velocities t ! (k * 2) = Math_fround (p_vx (particles t ! k))
              \<and> velocities t ! (k * 2 + 1) = Math_fround (p_vy (particles t ! k)))
   \<and> spatialHash t =
        (if useSpatialHashing s0
         then spec_hash (\<lambda>k. cellKey s0 (particle_step dt (clock k) s0 (particles s0 ! k))) j
         else spatialHash s0)
   \<and> velocityField t = velocityField s0 \<and> pressureField t = pressureField s0
   \<and> useGPU t = useGPU s0 \<and> useWorkers t = useWorkers s0"

text \<open>The first two steps of \<open>update\<close>: the audio influence and the clamped time step.\<close>

definition audio_applied :: "jsnum list option \<Rightarrow> fluid \<Rightarrow> fluid" where
  "audio_applied audioData s = (case audioData of None \<Rightarrow> s | Some a \<Rightarrow> updateAudioInfluence a s)"

definition frame_dt :: "jsnum \<Rightarrow> jsnum" where
  "frame_dt deltaTime = Math_min (deltaTime / Num 1000) (Num 0.016)"

text \<open>The batches run one after the other.\<close>

fun runBatches :: "(nat \<times> nat) list \<Rightarrow> jsnum \<Rightarrow> (nat \<Rightarrow> real) \<Rightarrow> fluid \<Rightarrow> error + fluid" where
  "runBatches [] dt clock s = Inr s"
| "runBatches ((a, b) # r) dt clock s =
     (case updateParticleBatch a b dt clock s of
        Inl e \<Rightarrow> Inl e
      | Inr s' \<Rightarrow> runBatches r dt clock s')"

text \<open>
  The states a simulation object goes through: built by the constructor, then changed by
  its methods. A \<open>resize\<close> that throws has already assigned the width and the height.
\<close>

inductive reachable :: "fluid \<Rightarrow> bool" where
  r_new: "FluidSimulation w h arg rnd = Inr s \<Longrightarrow> reachable s"
| r_update: "reachable s \<Longrightarrow> update deltaTime audioData clock s = Inr s' \<Longrightarrow> reachable s'"
| r_addForce: "reachable s \<Longrightarrow> reachable (addForce x y strength s)"
| r_setParticleCount: "reachable s \<Longrightarrow> setParticleCount count rnd s = Inr s' \<Longrightarrow> reachable s'"
| r_resize: "reachable s \<Longrightarrow> resize w h s = Inr s' \<Longrightarrow> reachable s'"
| r_resize_thrown: "reachable s \<Longrightarrow> reachable (s\<lparr> width := w, height := h \<rparr>)"
| r_setScene: "reachable s \<Longrightarrow> reachable (setScene sceneName s)"
| r_setViscosity: "reachable s \<Longrightarrow> reachable (setViscosity v s)"
| r_setDensity: "reachable s \<Longrightarrow> reachable (setDensity v s)"
| r_setSpeed: "reachable s \<Longrightarrow> reachable (setSpeed v s)"
| r_setResolution: "reachable s \<Longrightarrow> reachable (setResolution v s)"

text \<open>
  The typed buffers mirror the particle array: an entry is the float32 that is nearest
  to the field of the particle, which is what a store of the field leaves there.
\<close>

definition mirrors_positions :: "fluid \<Rightarrow> bool" where
  "mirrors_positions s \<longleftrightarrow>
     (\<forall>i < length (particles s).
        f32get (positions s) (2 * i) = Math_fround (p_x (particles s ! i))
      \<and> f32get (positions s) (2 * i + 1) = Math_fround (p_y (particles s ! i)))"

definition mirrors_velocities :: "fluid \<Rightarrow> bool" where
  "mirrors_velocities s \<longleftrightarrow>
     (\<forall>i < length (particles s).
        f32get (velocities s) (2 * i) = Math_fround (p_vx (particles s ! i))
      \<and> f32get (velocities s) (2 * i + 1) = Math_fround (p_vy (particles s ! i)))"

text \<open>The state of the loop of \<open>initializeParticles\<close> after \<open>i\<close> particles.\<close>

definition init_inv :: "fluid \<Rightarrow> nat \<Rightarrow> fluid \<Rightarrow> bool" where
  "init_inv s0 i t \<longleftrightarrow>
     length (particles t) = i
   \<and> length (positions t) = length (positions s0)
   \<and> length (velocities t) = length (velocities s0)
   \<and> (\<forall>k < i. positions t ! (k * 2) = Math_fround (p_x (particles t ! k))
              \<and> positions t ! (k * 2 + 1) = Math_fround (p_y (particles t ! k))
              \<and> velocities t ! (k * 2) = Math_fround (p_vx (particles t ! k))
              \<and> velocities t ! (k * 2 + 1) = Math_fround (p_vy (particles t ! k)))
   \<and> t\<lparr> particles := [], positions := [], velocities := [] \<rparr>
       = s0\<lparr> particles := [], positions := [], velocities := [] \<rparr>"

text \<open>What every method of the simulation keeps true.\<close>

definition wf :: "fluid \<Rightarrow> bool" where
  "wf s \<longleftrightarrow> length (particles s) = particleCount (params s) \<and> sized s \<and> mirrors_positions s"

section \<open>The adaptive quality controller (OptimizationManager)\<close>

record quality_settings =
  qs_particles :: nat
  qs_resolution :: jsnum
  qs_effects :: bool
  qs_shadows :: bool
  qs_antialiasing :: bool

record thresholds =
  fpsTarget :: jsnum
  fpsMin :: jsnum
  fpsMax :: jsnum
  memoryMax :: jsnum
  frameTimeMax :: jsnum

text \<open>
  The manager. \<open>dispatched\<close> lists the \<open>qualityChanged\<close> events handed to
  \<open>window.dispatchEvent\<close>, oldest first. The device capabilities, which only
  \<open>getOptimalCanvasSize\<close>, \<open>getFluidParams\<close> and the recommendations read, are left out.
\<close>

record manager =
  adaptiveQuality :: bool
  gpuAcceleration :: bool
  multiThreading :: bool
  qualitySettings :: quality_settings
  performanceHistory :: "jsnum list"
  maxHistoryLength :: nat
  optimizationThresholds :: thresholds
  currentQualityLevel :: string
  dispatched :: "(string \<times> quality_settings) list"

definition OptimizationManager :: manager where
  "OptimizationManager =
     \<lparr> adaptiveQuality = True, gpuAcceleration = True, multiThreading = True,
       qualitySettings = \<lparr> qs_particles = 1000, qs_resolution = Num 1.0, qs_effects = True,
                            qs_shadows = True, qs_antialiasing = True \<rparr>,
       performanceHistory = [],
       maxHistoryLength = 60,
       optimizationThresholds = \<lparr> fpsTarget = Num 60, fpsMin = Num 45, fpsMax = Num 120,
                                   memoryMax = Num 150, frameTimeMax = Num 16.67 \<rparr>,
       currentQualityLevel = ''medium'',
       dispatched = [] \<rparr>"

text \<open>\<open>Array.prototype.indexOf\<close>: the first index of the element, or -1.\<close>

fun indexOf :: "'a list \<Rightarrow> 'a \<Rightarrow> int" where
  "indexOf [] a = - 1"
| "indexOf (b # bs) a = (if b = a then 0 else (let i = indexOf bs a in if i < 0 then - 1 else i + 1))"

text \<open>
  The table of \<open>applyQualitySettings\<close>; a name that is not in the table gives \<open>undefined\<close>,
  whose spread adds nothing.
\<close>

definition preset :: "string \<Rightarrow> quality_settings option" where
  "preset quality =
     (if quality = ''low'' then
        Some \<lparr> qs_particles = 300, qs_resolution = Num 0.5, qs_effects = False,
               qs_shadows = False, qs_antialiasing = False \<rparr>
      else if quality = ''medium'' then
        Some \<lparr> qs_particles = 800, qs_resolution = Num 0.75, qs_effects = True,
               qs_shadows = False, qs_antialiasing = False \<rparr>
      else if quality = ''high'' then
        Some \<lparr> qs_particles = 1500, qs_resolution = Num 1.0, qs_effects = True,
               qs_shadows = True, qs_antialiasing = False \<rparr>
      else if quality = ''ultra'' then
        Some \<lparr> qs_particles = 3000, qs_resolution = Num 1.0, qs_effects = True,
               qs_shadows = True, qs_antialiasing = True \<rparr>
      else None)"

definition applyQualitySettings :: "string \<Rightarrow> manager \<Rightarrow> manager" where
  "applyQualitySettings quality m =
     (let qs = (case preset quality of None \<Rightarrow> qualitySettings m | Some p \<Rightarrow> p)
      in m\<lparr> qualitySettings := qs, dispatched := dispatched m @ [(quality, qs)] \<rparr>)"

definition decreaseQuality :: "manager \<Rightarrow> manager" where
  "decreaseQuality m =
     (let qualityLevels = [''ultra'', ''high'', ''medium'', ''low''];
          currentIndex = indexOf qualityLevels (currentQualityLevel m)
      in if currentIndex < int (length qualityLevels) - 1 then
           (let m1 = m\<lparr> currentQualityLevel := qualityLevels ! nat (currentIndex + 1) \<rparr>
            in applyQualitySettings (currentQualityLevel m1) m1)
         else m)"

definition increaseQuality :: "manager \<Rightarrow> manager" where
  "increaseQuality m =
     (let qualityLevels = [''low'', ''medium'', ''high'', ''ultra''];
          currentIndex = indexOf qualityLevels (currentQualityLevel m)
      in if currentIndex < int (length qualityLevels) - 1 then
           (let m1 = m\<lparr> currentQualityLevel := qualityLevels ! nat (currentIndex + 1) \<rparr>
            in applyQualitySettings (currentQualityLevel m1) m1)
         else m)"

text \<open>
  \<open>adjustQuality(currentFPS, targetFPS)\<close>. The average divides by the length of the
  history after the push, which is at least 1.
\<close>

definition adjustQuality :: "jsnum \<Rightarrow> jsnum \<Rightarrow> manager \<Rightarrow> manager" where
  "adjustQuality currentFPS targetFPS m =
     (if \<not> adaptiveQuality m then m
      else
        (let h1 = performanceHistory m @ [currentFPS];
             h2 = (if maxHistoryLength m < length h1 then tl h1 else h1);
             m1 = m\<lparr> performanceHistory := h2 \<rparr>;
             avgFPS = foldl (+) (Num 0) h2 / Num (real (length h2))
         in if avgFPS < fpsMin (optimizationThresholds m1) then decreaseQuality m1
            else if fpsMax (optimizationThresholds m1) < avgFPS \<and> currentQualityLevel m1 \<noteq> ''ultra''
            then increaseQuality m1
            else m1))"

definition setAdaptiveQuality :: "bool \<Rightarrow> manager \<Rightarrow> manager" where
  "setAdaptiveQuality enabled m = m\<lparr> adaptiveQuality := enabled \<rparr>"

text \<open>The ladder of tiers: the place of a tier name on it.\<close>

definition rank :: "string \<Rightarrow> int" where
  "rank q = indexOf [''low'', ''medium'', ''high'', ''ultra''] q"

text \<open>The window after a sample: the last 60 of the samples so far.\<close>

definition window_avg :: "jsnum list \<Rightarrow> jsnum" where
  "window_avg h = foldl (+) (Num 0) h / Num (real (length h))"

section \<open>The worker script\<close>

text \<open>
  The functions of the script that every worker runs. A message is copied when it is
  posted, so a worker changes its own copy of the particles.
\<close>

record update_data =
  ud_particles :: "particle list"
  ud_forces :: "jsnum list"
  ud_deltaTime :: jsnum
  ud_params :: params

record forces_data =
  fd_particles :: "particle list"
  fd_scene :: string
  fd_audioInfluence :: jsnum
  fd_width :: jsnum
  fd_height :: jsnum

record hash_data =
  hd_particles :: "particle list"
  hd_cellSize :: jsnum

text \<open>\<open>forces[i] || 0\<close>: \<open>undefined\<close> (out of range), \<open>NaN\<close> and 0 give 0.\<close>

definition force_or_0 :: "jsnum list \<Rightarrow> nat \<Rightarrow> jsnum" where
  "force_or_0 a i =
     (if i < length a then (case a ! i of Num v \<Rightarrow> Num v | NaN \<Rightarrow> Num 0) else Num 0)"

text \<open>The body of the loop of \<open>updateParticlesBatch\<close> for the index \<open>i\<close>.\<close>

definition updateParticlesStep :: "update_data \<Rightarrow> nat \<Rightarrow> particle" where
  "updateParticlesStep data i =
     (let particle = ud_particles data ! i;
          fx = force_or_0 (ud_forces data) (i * 2);
          fy = force_or_0 (ud_forces data) (i * 2 + 1);
          p1 = particle\<lparr> p_vx := p_vx particle + fx * ud_deltaTime data,
                           p_vy := p_vy particle + fy * ud_deltaTime data \<rparr>;
          p2 = p1\<lparr> p_vx := p_vx p1 * Num 0.99, p_vy := p_vy p1 * Num 0.99 \<rparr>
      in p2\<lparr> p_x := p_x p2 + p_vx p2 * ud_deltaTime data * speed (ud_params data),
              p_y := p_y p2 + p_vy p2 * ud_deltaTime data * speed (ud_params data) \<rparr>)"

definition updateParticlesBatch :: "update_data \<Rightarrow> particle list" where
  "updateParticlesBatch data =
     foldl (\<lambda>updatedParticles i. updatedParticles @ [updateParticlesStep data i]) []
       [0 ..< length (ud_particles data)]"

text \<open>
  The \<open>switch\<close> of \<open>calculateForcesBatch\<close> on the scene name: it has the cases
  \<open>vortex\<close> and \<open>wave\<close> only, and nothing follows it but the two stores.
\<close>

definition workerForce :: "real \<Rightarrow> forces_data \<Rightarrow> particle \<Rightarrow> jsnum \<times> jsnum" where
  "workerForce now data particle =
     (if fd_scene data = ''vortex'' then
        (let centerX = fd_width data / Num 2;
             centerY = fd_height data / Num 2;
             dx = p_x particle - centerX;
             dy = p_y particle - centerY;
             distance = Math_sqrt (dx * dx + dy * dy)
         in if Num 0 < distance then
              (let strength = Num 100 / (distance + Num 1)
               in (- dy * strength * fd_audioInfluence data, dx * strength * fd_audioInfluence data))
            else (Num 0, Num 0))
      else if fd_scene data = ''wave'' then
        (let waveForce = Math_sin (p_x particle * Num 0.01 + Num now * Num 0.001) * Num 50
         in (Num 0, waveForce * fd_audioInfluence data))
      else (Num 0, Num 0))"

text \<open>\<open>clock i\<close> is the value of \<open>Date.now()\<close> in the worker when it computes the force
  of the particle \<open>i\<close> of the batch.\<close>

definition calculateForcesBatch :: "(nat \<Rightarrow> real) \<Rightarrow> forces_data \<Rightarrow> jsnum list" where
  "calculateForcesBatch clock data =
     foldl (\<lambda>forces i.
              (let (fx, fy) = workerForce (clock i) data (fd_particles data ! i)
               in f32set (f32set forces (i * 2) fx) (i * 2 + 1) fy))
       (Float32Array (length (fd_particles data) * 2))
       [0 ..< length (fd_particles data)]"

definition calculateSpatialHash :: "hash_data \<Rightarrow> ((jsnum \<times> jsnum) \<rightharpoonup> nat list)" where
  "calculateSpatialHash data =
     foldl (\<lambda>hash i.
              (let particle = hd_particles data ! i;
                   key = (Math_floor (p_x particle / hd_cellSize data),
                          Math_floor (p_y particle / hd_cellSize data))
               in hash(key \<mapsto> (case hash key of None \<Rightarrow> [] | Some l \<Rightarrow> l) @ [i])))
       Map.empty
       [0 ..< length (hd_particles data)]"

datatype payload =
  UpdateParticlesData update_data
| CalculateForcesData forces_data
| SpatialHashData hash_data

datatype result =
  ParticlesResult "particle list"
| ForcesResult "jsnum list"
| HashResult "(jsnum \<times> jsnum) \<rightharpoonup> nat list"

record message =
  m_type :: string
  m_data :: payload
  m_taskId :: string

record reply =
  r_type :: string
  r_result :: result
  r_taskId :: string

text \<open>
  \<open>onmessage\<close> of the worker: the reply it posts, if any. A message of another type gets
  no reply; data that do not fit the type make the worker throw, which is no reply
  either. \<open>wclock t i\<close> is the worker's clock while it computes particle \<open>i\<close> of the task
  \<open>t\<close>.
\<close>

definition onmessage :: "(string \<Rightarrow> nat \<Rightarrow> real) \<Rightarrow> message \<Rightarrow> reply option" where
  "onmessage wclock m =
     (if m_type m = ''updateParticles'' then
        (case m_data m of
           UpdateParticlesData d \<Rightarrow>
             Some \<lparr> r_type = ''particlesUpdated'',
                    r_result = ParticlesResult (updateParticlesBatch d), r_taskId = m_taskId m \<rparr>
         | _ \<Rightarrow> None)
      else if m_type m = ''calculateForces'' then
        (case m_data m of
           CalculateForcesData d \<Rightarrow>
             Some \<lparr> r_type = ''forcesCalculated'',
                    r_result = ForcesResult (calculateForcesBatch (wclock (m_taskId m)) d),
                    r_taskId = m_taskId m \<rparr>
         | _ \<Rightarrow> None)
      else if m_type m = ''spatialHash'' then
        (case m_data m of
           SpatialHashData d \<Rightarrow>
             Some \<lparr> r_type = ''spatialHashCalculated'',
                    r_result = HashResult (calculateSpatialHash d), r_taskId = m_taskId m \<rparr>
         | _ \<Rightarrow> None)
      else None)"

section \<open>The worker pool (WorkerPool)\<close>

text \<open>
  A worker is known by a number. A task holds the \<open>resolve\<close> and \<open>reject\<close> of one promise,
  which the model names by a number (\<open>t_promise\<close>); \<open>t_worker\<close> is \<open>None\<close> until the task is
  assigned. The timestamp of a task, which only the metrics read, is left out.
\<close>

type_synonym wid = nat

record task =
  t_id :: string
  t_type :: string
  t_data :: payload
  t_promise :: nat
  t_worker :: "wid option"

datatype settlement = Resolved result | Rejected string

text \<open>
  The pool. \<open>inbox w\<close> holds the messages posted to the worker \<open>w\<close> that it has not
  answered yet, oldest first. \<open>settlements\<close> lists the promises settled so far with their
  values, in the order in which they were settled, and \<open>promises\<close> counts the promises
  created.
\<close>

record pool =
  maxWorkers :: nat
  workers :: "wid list"
  availableWorkers :: "wid list"
  taskQueue :: "task list"
  isInitialized :: bool
  inbox :: "wid \<Rightarrow> message list"
  settlements :: "(nat \<times> settlement) list"
  promises :: nat

definition WorkerPool :: "nat \<Rightarrow> pool" where
  "WorkerPool n =
     \<lparr> maxWorkers = min n 8, workers = [], availableWorkers = [], taskQueue = [],
       isInitialized = False, inbox = (\<lambda>w. []), settlements = [], promises = 0 \<rparr>"

text \<open>
  \<open>initialize\<close>. The new workers get the numbers that follow those in use. A \<open>Worker\<close>
  constructor that throws is not modelled.
\<close>

definition initialize :: "pool \<Rightarrow> pool" where
  "initialize st =
     (if isInitialized st then st
      else (let new = [length (workers st) ..< length (workers st) + maxWorkers st]
            in st\<lparr> workers := workers st @ new,
                    availableWorkers := availableWorkers st @ new,
                    isInitialized := True \<rparr>))"

text \<open>A promise is settled once: a later \<open>resolve\<close> or \<open>reject\<close> does nothing.\<close>

definition settle :: "nat \<Rightarrow> settlement \<Rightarrow> pool \<Rightarrow> pool" where
  "settle p v st =
     (if map_of (settlements st) p = None then st\<lparr> settlements := settlements st @ [(p, v)] \<rparr>
      else st)"

text \<open>\<open>Array.prototype.findIndex\<close>, with \<open>None\<close> for -1.\<close>

fun findIndex :: "('a \<Rightarrow> bool) \<Rightarrow> 'a list \<Rightarrow> nat option" where
  "findIndex P [] = None"
| "findIndex P (a # as) =
     (if P a then Some 0 else (case findIndex P as of None \<Rightarrow> None | Some i \<Rightarrow> Some (Suc i)))"

definition postMessage :: "wid \<Rightarrow> message \<Rightarrow> pool \<Rightarrow> pool" where
  "postMessage w m st = st\<lparr> inbox := (inbox st)(w := inbox st w @ [m]) \<rparr>"

definition processNextTask :: "pool \<Rightarrow> pool" where
  "processNextTask st =
     (if taskQueue st = [] \<or> availableWorkers st = [] then st
      else
        (let worker = last (availableWorkers st);
             st1 = st\<lparr> availableWorkers := butlast (availableWorkers st) \<rparr>
         in case findIndex (\<lambda>t. t_worker t = None) (taskQueue st1) of
              Some i \<Rightarrow>
                (let task = (taskQueue st1 ! i)\<lparr> t_worker := Some worker \<rparr>
                 in postMessage worker
                      \<lparr> m_type = t_type task, m_data = t_data task, m_taskId = t_id task \<rparr>
                      (st1\<lparr> taskQueue := (taskQueue st1)[i := task] \<rparr>))
            | None \<Rightarrow> st1\<lparr> availableWorkers := availableWorkers st1 @ [worker] \<rparr>))"

definition returnWorker :: "wid \<Rightarrow> pool \<Rightarrow> pool" where
  "returnWorker worker st =
     (if worker \<in> set (availableWorkers st) then st
      else st\<lparr> availableWorkers := availableWorkers st @ [worker] \<rparr>)"

definition handleWorkerMessage :: "wid \<Rightarrow> reply \<Rightarrow> pool \<Rightarrow> pool" where
  "handleWorkerMessage worker ev st =
     (let st1 = (case findIndex (\<lambda>task. t_id task = r_taskId ev) (taskQueue st) of
                   Some taskIndex \<Rightarrow>
                     (let task = taskQueue st ! taskIndex
                      in settle (t_promise task) (Resolved (r_result ev))
                           (st\<lparr> taskQueue := take taskIndex (taskQueue st)
                                                @ drop (Suc taskIndex) (taskQueue st) \<rparr>))
                 | None \<Rightarrow> st)
      in processNextTask (returnWorker worker st1))"

definition handleWorkerError :: "wid \<Rightarrow> string \<Rightarrow> pool \<Rightarrow> pool" where
  "handleWorkerError worker err st =
     (let workerTasks = filter (\<lambda>task. t_worker task = Some worker) (taskQueue st);
          st1 = foldl (\<lambda>s task. settle (t_promise task) (Rejected err) s) st workerTasks;
          st2 = st1\<lparr> taskQueue := filter (\<lambda>task. t_worker task \<noteq> Some worker) (taskQueue st1) \<rparr>
      in returnWorker worker st2)"

text \<open>
  \<open>executeTask\<close>: the pool is initialized if it was not, the promise is created, and its
  executor queues the task under the identifier \<open>taskId\<close> that \<open>generateTaskId\<close> has
  drawn and calls \<open>processNextTask\<close>. The result is the promise and the new pool. After
  \<open>await this.initialize()\<close> the executor runs one microtask later; a single call ends
  in the state given here, and the batch operations below queue their slices in the
  order that this delay gives.
\<close>

definition enqueue :: "string \<Rightarrow> string \<Rightarrow> payload \<Rightarrow> nat \<Rightarrow> pool \<Rightarrow> pool" where
  "enqueue taskId ty data promise st =
     processNextTask
       (st\<lparr> taskQueue := taskQueue st
               @ [\<lparr> t_id = taskId, t_type = ty, t_data = data, t_promise = promise,
                    t_worker = None \<rparr>] \<rparr>)"

definition executeTask :: "string \<Rightarrow> string \<Rightarrow> payload \<Rightarrow> pool \<Rightarrow> nat \<times> pool" where
  "executeTask taskId ty data st =
     (let st1 = initialize st
      in (promises st1, enqueue taskId ty data (promises st1) (st1\<lparr> promises := Suc (promises st1) \<rparr>)))"

text \<open>\<open>terminate\<close>: the workers are stopped, so what was posted to them is never answered.\<close>

definition terminate :: "pool \<Rightarrow> pool" where
  "terminate st =
     st\<lparr> workers := [], availableWorkers := [], taskQueue := [], isInitialized := False,
         inbox := (\<lambda>w. []) \<rparr>"

subsection \<open>The batch operations\<close>

text \<open>
  \<open>Math.ceil(particles.length / this.maxWorkers)\<close>. Without workers the quotient is
  \<open>Infinity\<close> (or \<open>NaN\<close> for no particles), and the loop then makes one slice of the whole
  array (or none), as a batch size of the length of the array does.
\<close>

definition batch_size :: "nat \<Rightarrow> nat \<Rightarrow> nat" where
  "batch_size n w = (if w = 0 then n else (n + w - 1) div w)"

text \<open>
  The values of \<open>i\<close> in \<open>for (let i = 0; i < particles.length; i += batchSize)\<close>. The batch
  size is 0 only for an empty array, for which the loop does not run.
\<close>

function starts_from :: "nat \<Rightarrow> nat \<Rightarrow> nat \<Rightarrow> nat list" where
  "starts_from i bs n = (if i < n \<and> 0 < bs then i # starts_from (i + bs) bs n else [])"
  by pat_completeness auto
termination
  by (relation "measure (\<lambda>(i, bs, n). n - i)") auto

declare starts_from.simps [simp del]

text \<open>\<open>xs.slice(a, b)\<close> for \<open>0 \<le> a \<le> b\<close>.\<close>

definition slice :: "nat \<Rightarrow> nat \<Rightarrow> 'a list \<Rightarrow> 'a list" where
  "slice a b xs = take (b - a) (drop a xs)"

text \<open>
  The calls of \<open>executeTask\<close> of a batch operation, one for each element of \<open>datas\<close>, with
  the identifier \<open>ids j\<close> for the call \<open>j\<close>; the result is the list \<open>batches\<close> of the promises
  and the new pool. On a pool that is initialized the executors run in the order of the
  calls. On a pool that is not, the first call initializes it and waits, the other calls
  find it initialized and queue their tasks at once, and the task of the first call is
  queued after them.
\<close>

definition submit_order :: "bool \<Rightarrow> nat \<Rightarrow> nat list" where
  "submit_order initialized k = (if initialized then [0 ..< k] else [1 ..< k] @ [0])"

definition submit_all :: "(nat \<Rightarrow> string) \<Rightarrow> string \<Rightarrow> payload list \<Rightarrow> pool \<Rightarrow> nat list \<times> pool" where
  "submit_all ids ty datas st =
     (if datas = [] then ([], st)
      else
        (let k = length datas;
             st1 = initialize st;
             base = promises st1
         in (map (\<lambda>j. base + j) [0 ..< k],
             foldl (\<lambda>s j. enqueue (ids j) ty (datas ! j) (base + j) s)
               (st1\<lparr> promises := base + k \<rparr>)
               (submit_order (isInitialized st) k))))"

definition forces_slices :: "particle list \<Rightarrow> string \<Rightarrow> jsnum \<Rightarrow> jsnum \<Rightarrow> jsnum \<Rightarrow> nat \<Rightarrow> forces_data list" where
  "forces_slices pts scene ai w h workerCount =
     (let batchSize = batch_size (length pts) workerCount
      in map (\<lambda>i. \<lparr> fd_particles = slice i (i + batchSize) pts, fd_scene = scene,
                      fd_audioInfluence = ai, fd_width = w, fd_height = h \<rparr>)
           (starts_from 0 batchSize (length pts)))"

definition update_slices :: "particle list \<Rightarrow> jsnum list \<Rightarrow> jsnum \<Rightarrow> params \<Rightarrow> nat \<Rightarrow> update_data list" where
  "update_slices pts fs deltaTime ps workerCount =
     (let batchSize = batch_size (length pts) workerCount
      in map (\<lambda>i. \<lparr> ud_particles = slice i (i + batchSize) pts,
                      ud_forces = slice (i * 2) ((i + batchSize) * 2) fs,
                      ud_deltaTime = deltaTime, ud_params = ps \<rparr>)
           (starts_from 0 batchSize (length pts)))"

definition calculateForces_submit ::
  "(nat \<Rightarrow> string) \<Rightarrow> particle list \<Rightarrow> string \<Rightarrow> jsnum \<Rightarrow> jsnum \<Rightarrow> jsnum \<Rightarrow> pool \<Rightarrow> nat list \<times> pool" where
  "calculateForces_submit ids pts scene ai w h st =
     submit_all ids ''calculateForces''
       (map CalculateForcesData (forces_slices pts scene ai w h (maxWorkers st))) st"

definition updateParticles_submit ::
  "(nat \<Rightarrow> string) \<Rightarrow> particle list \<Rightarrow> jsnum list \<Rightarrow> jsnum \<Rightarrow> params \<Rightarrow> pool \<Rightarrow> nat list \<times> pool" where
  "updateParticles_submit ids pts fs deltaTime ps st =
     submit_all ids ''updateParticles''
       (map UpdateParticlesData (update_slices pts fs deltaTime ps (maxWorkers st))) st"

text \<open>
  \<open>Promise.all\<close>: rejected with the reason of the first of its promises that was rejected;
  fulfilled, with the values in the order of the promises, once all are resolved;
  pending until then.
\<close>

datatype 'a outcome = Pending | Fulfilled 'a | Failed string

fun first_rejection :: "nat list \<Rightarrow> (nat \<times> settlement) list \<Rightarrow> string option" where
  "first_rejection ps [] = None"
| "first_rejection ps ((p, Rejected e) # l) = (if p \<in> set ps then Some e else first_rejection ps l)"
| "first_rejection ps ((p, Resolved r) # l) = first_rejection ps l"

definition resolved_value :: "pool \<Rightarrow> nat \<Rightarrow> result option" where
  "resolved_value st p =
     (case map_of (settlements st) p of Some (Resolved r) \<Rightarrow> Some r | _ \<Rightarrow> None)"

definition Promise_all :: "nat list \<Rightarrow> pool \<Rightarrow> result list outcome" where
  "Promise_all ps st =
     (case first_rejection ps (settlements st) of
        Some e \<Rightarrow> Failed e
      | None \<Rightarrow>
          (case those (map (resolved_value st) ps) of
             Some rs \<Rightarrow> Fulfilled rs
           | None \<Rightarrow> Pending))"

text \<open>\<open>target.set(source, offset)\<close> of a typed array.\<close>

definition set_at :: "jsnum list \<Rightarrow> jsnum list \<Rightarrow> nat \<Rightarrow> error + jsnum list" where
  "set_at target source offset =
     (if offset + length source \<le> length target
      then Inr (take offset target @ source @ drop (offset + length source) target)
      else Inl RangeError)"

text \<open>
  The \<open>forEach\<close> of \<open>calculateForces\<close> over the results, and \<open>results.flat()\<close> of
  \<open>updateParticles\<close>. The results of the tasks of these operations are force arrays and
  particle arrays respectively; another result stands as a TypeError.
\<close>

fun combine :: "result list \<Rightarrow> nat \<Rightarrow> jsnum list \<Rightarrow> error + jsnum list" where
  "combine [] offset totalForces = Inr totalForces"
| "combine (ForcesResult batchForces # rs) offset totalForces =
     (case set_at totalForces batchForces offset of
        Inl e \<Rightarrow> Inl e
      | Inr t \<Rightarrow> combine rs (offset + length batchForces) t)"
| "combine (r # rs) offset totalForces = Inl TypeError"

fun flat :: "result list \<Rightarrow> error + particle list" where
  "flat [] = Inr []"
| "flat (ParticlesResult ps # rs) = (case flat rs of Inl e \<Rightarrow> Inl e | Inr l \<Rightarrow> Inr (ps @ l))"
| "flat (r # rs) = Inl TypeError"

text \<open>
  What the caller of the batch operation gets once \<open>await Promise.all(batches)\<close> lets it
  go on.
\<close>

definition calculateForces_result :: "nat list \<Rightarrow> nat \<Rightarrow> pool \<Rightarrow> (error + jsnum list) outcome" where
  "calculateForces_result batches n st =
     (case Promise_all batches st of
        Pending \<Rightarrow> Pending
      | Failed e \<Rightarrow> Failed e
      | Fulfilled results \<Rightarrow> Fulfilled (combine results 0 (Float32Array (n * 2))))"

definition updateParticles_result :: "nat list \<Rightarrow> pool \<Rightarrow> (error + particle list) outcome" where
  "updateParticles_result batches st =
     (case Promise_all batches st of
        Pending \<Rightarrow> Pending
      | Failed e \<Rightarrow> Failed e
      | Fulfilled results \<Rightarrow> Fulfilled (flat results))"

subsection \<open>What happens to a pool\<close>

text \<open>
  A worker posts the reply to the oldest message it holds; a worker reports an error,
  which ends its work on the oldest message it holds; somebody calls \<open>executeTask\<close>.
\<close>

datatype event = Posts wid | Errors wid string | Executes string string payload

fun pool_event :: "(string \<Rightarrow> nat \<Rightarrow> real) \<Rightarrow> event \<Rightarrow> pool \<Rightarrow> pool" where
  "pool_event wclock (Posts w) st =
     (case inbox st w of
        [] \<Rightarrow> st
      | m # rest \<Rightarrow>
          (let st1 = st\<lparr> inbox := (inbox st)(w := rest) \<rparr>
           in case onmessage wclock m of
                None \<Rightarrow> st1
              | Some r \<Rightarrow> handleWorkerMessage w r st1))"
| "pool_event wclock (Errors w e) st =
     handleWorkerError w e (st\<lparr> inbox := (inbox st)(w := tl (inbox st w)) \<rparr>)"
| "pool_event wclock (Executes taskId ty d) st = snd (executeTask taskId ty d st)"

definition run :: "(string \<Rightarrow> nat \<Rightarrow> real) \<Rightarrow> event list \<Rightarrow> pool \<Rightarrow> pool" where
  "run wclock evs st = foldl (\<lambda>s e. pool_event wclock e s) st evs"

subsection \<open>What the pool keeps true\<close>

text \<open>
  The identifiers of the queued tasks differ (\<open>generateTaskId\<close> draws a random string and
  appends the time), every queued task has a promise of its own, and the promise of a
  queued task is pending.
\<close>

definition pool_inv :: "pool \<Rightarrow> bool" where
  "pool_inv st \<longleftrightarrow>
     distinct (map t_id (taskQueue st))
   \<and> distinct (map t_promise (taskQueue st))
   \<and> (\<forall>t \<in> set (taskQueue st). map_of (settlements st) (t_promise t) = None)"

text \<open>The message that \<open>processNextTask\<close> posts for a task.\<close>

definition message_of :: "task \<Rightarrow> message" where
  "message_of t = \<lparr> m_type = t_type t, m_data = t_data t, m_taskId = t_id t \<rparr>"

section \<open>Example states\<close>

definition demo :: fluid where
  "demo = \<lparr> width = Num 800, height = Num 600,
      params = \<lparr> viscosity = Num 0.5, density = Num 1, speed = Num 1, particleCount = 2,
                 resolution = Num 1 \<rparr>,
      particles = [\<lparr> p_x = Num 400, p_y = Num 300, p_vx = Num 1, p_vy = Num 0,
                     p_life = Num 1, p_color = Num 0, p_size = Num 2 \<rparr>,
                   \<lparr> p_x = Num 403, p_y = Num 304, p_vx = Num 0, p_vy = Num 2,
                     p_life = Num 1, p_color = Num 137.508, p_size = Num 3 \<rparr>],
      velocityField = [], pressureField = [],
      useGPU = True, useWorkers = True, useSpatialHashing = True,
      spatialHash = Map.empty, cellSize = Num 20,
      forces = [Num 0, Num 0, Num 0, Num 0], positions = [Num 400, Num 300, Num 403, Num 304],
      velocities = [Num 1, Num 0, Num 0, Num 2],
      currentScene = ''default'', audioInfluence = Num 1 \<rparr>"

text \<open>A simulation of one particle on a canvas of 20 by 10, as the constructor builds it
  when every call of \<open>Math.random()\<close> returns 1/2.\<close>

definition tiny_arg :: params_arg where
  "tiny_arg = \<lparr> arg_viscosity = None, arg_density = None, arg_speed = None,
                 arg_particleCount = Some 1, arg_resolution = None \<rparr>"

definition tiny :: fluid where
  "tiny = \<lparr> width = Num 20, height = Num 10,
      params = \<lparr> viscosity = Num 0.0001, density = Num 1, speed = Num 1, particleCount = 1,
                 resolution = Num 1 \<rparr>,
      particles = [\<lparr> p_x = Num 10, p_y = Num 5, p_vx = Num 0, p_vy = Num 0,
                     p_life = Num 1, p_color = Num 0, p_size = Num 2.5 \<rparr>],
      velocityField = [(Num 0, Num 0), (Num 0, Num 0)], pressureField = [Num 0, Num 0],
      useGPU = True, useWorkers = True, useSpatialHashing = True,
      spatialHash = Map.empty, cellSize = Num 20,
      forces = [Num 0, Num 0], positions = [Num 10, Num 5],
      velocities = [Num 0, Num 0],
      currentScene = ''default'', audioInfluence = Num 0 \<rparr>"

text \<open>The same simulation when every call of \<open>Math.random()\<close> returns 3/10: the velocity
  \<open>-0.4\<close> of the particle is not a float32, and the \<open>velocities\<close> buffer holds the float32
  next to it, \<open>-13421773 / 2^25\<close>.\<close>

definition rounded :: fluid where
  "rounded = \<lparr> width = Num 20, height = Num 10,
      params = \<lparr> viscosity = Num 0.0001, density = Num 1, speed = Num 1, particleCount = 1,
                 resolution = Num 1 \<rparr>,
      particles = [\<lparr> p_x = Num 6, p_y = Num 3, p_vx = Num (- 0.4), p_vy = Num (- 0.4),
                     p_life = Num 1, p_color = Num 0, p_size = Num 1.9 \<rparr>],
      velocityField = [(Num 0, Num 0), (Num 0, Num 0)], pressureField = [Num 0, Num 0],
      useGPU = True, useWorkers = True, useSpatialHashing = True,
      spatialHash = Map.empty, cellSize = Num 20,
      forces = [Num 0, Num 0], positions = [Num 6, Num 3],
      velocities = [Num (- 13421773 / 33554432), Num (- 13421773 / 33554432)],
      currentScene = ''default'', audioInfluence = Num 0 \<rparr>"

text \<open>A manager whose history holds 60 samples of 30 frames per second.\<close>

definition slow_manager :: manager where
  "slow_manager = OptimizationManager\<lparr> performanceHistory := replicate 60 (Num 30) \<rparr>"

text \<open>
  A pool of two workers after three calls of \<open>executeTask\<close>: the tasks \<open>a\<close> and \<open>b\<close> are
  with the workers 1 and 0, the task \<open>c\<close> waits; the worker 1 has taken its message.
\<close>

definition hash_job :: payload where
  "hash_job = SpatialHashData \<lparr> hd_particles = [], hd_cellSize = Num 20 \<rparr>"

definition job :: "string \<Rightarrow> nat \<Rightarrow> wid option \<Rightarrow> task" where
  "job name p w = \<lparr> t_id = name, t_type = ''spatialHash'', t_data = hash_job, t_promise = p,
                    t_worker = w \<rparr>"

definition busy_pool :: pool where
  "busy_pool =
     \<lparr> maxWorkers = 2, workers = [0, 1], availableWorkers = [],
       taskQueue = [job ''a'' 0 (Some 1), job ''b'' 1 (Some 0), job ''c'' 2 None],
       isInitialized = True,
       inbox = (\<lambda>w. if w = 0 then [message_of (job ''b'' 1 (Some 0))] else []),
       settlements = [], promises = 3 \<rparr>"

section \<open>Stores into typed arrays\<close>

lemma log2_nat_numeral [simp]:
  "log2_nat 0 = 0" "log2_nat (Suc 0) = 0" "log2_nat (numeral Num.One) = 0"
  "log2_nat (numeral (Num.Bit0 n)) = Suc (log2_nat (numeral n))"
  "log2_nat (numeral (Num.Bit1 n)) = Suc (log2_nat (numeral n))"
  by (simp_all add: log2_nat.simps[of 0] log2_nat.simps[of "Suc 0"] log2_nat.simps[of 1]
      log2_nat.simps[of "numeral (Num.Bit0 n)"] log2_nat.simps[of "numeral (Num.Bit1 n)"])

lemma fround_0 [simp]: "fround 0 = 0"
  by (simp add: fround_def)

lemmas fround_eval = fround_def ilog2_def pow2_def round_half_even_def Let_def

lemma is_num_fround [simp]: "is_num (Math_fround v) = is_num v"
  by (cases v) simp_all

lemma Math_fround_NaN_iff [simp]: "Math_fround v = NaN \<longleftrightarrow> v = NaN"
  by (cases v) simp_all

lemma length_f32set [simp]: "length (f32set a i v) = length a"
  by (simp add: f32set_def)

section \<open>The frame update, step by step\<close>

lemma updateSpatialHash_eq:
  "updateSpatialHash p i s = s\<lparr> spatialHash := hash_add (cellKey s p) i (spatialHash s) \<rparr>"
  by (auto simp: updateSpatialHash_def hash_add_def Let_def split: option.splits)

lemma integrate_spec:
  "integrate fx fy dt s p =
     spec_integratePosition dt (speed (params s)) (spec_damp (spec_integrateVelocity (fx, fy) dt p))"
  by (simp add: integrate_def spec_integratePosition_def spec_damp_def spec_integrateVelocity_def Let_def)

lemma particleForce_forces_upd [simp]:
  "particleForce now p (s\<lparr> forces := F \<rparr>) = particleForce now p s"
  by (simp add: particleForce_def sceneForce_def Let_def)

lemma handleBoundaries_forces_upd [simp]:
  "handleBoundaries (s\<lparr> forces := F \<rparr>) = handleBoundaries s"
  by (rule ext) (simp add: handleBoundaries_def Let_def)

lemma integrate_forces_upd [simp]:
  "integrate fx fy dt (s\<lparr> forces := F \<rparr>) = integrate fx fy dt s"
  by (rule ext) (simp add: integrate_def Let_def)

lemma stored_force_forces_upd [simp]:
  "stored_force now p (s\<lparr> forces := F \<rparr>) = stored_force now p s"
  by (simp add: stored_force_def)

lemma particle_step_forces_upd [simp]:
  "particle_step dt now (s\<lparr> forces := F \<rparr>) = particle_step dt now s"
  by (rule ext) (simp add: particle_step_def)

lemma cellKey_upd [simp]:
  "cellKey (s\<lparr> forces := F \<rparr>) = cellKey s"
  "cellKey (s\<lparr> particles := P \<rparr>) = cellKey s"
  by (rule ext, simp add: cellKey_def)+

lemma f32get_set2:
  assumes "i * 2 + 1 < length a"
  shows "f32get (f32set (f32set a (i * 2) v) (i * 2 + 1) w) (i * 2) = Math_fround v"
    and "f32get (f32set (f32set a (i * 2) v) (i * 2 + 1) w) (i * 2 + 1) = Math_fround w"
  using assms by (simp_all add: f32get_def f32set_def)

lemma f32get_set2_Suc:
  assumes "Suc (i * 2) < length a"
  shows "f32get (f32set (f32set a (i * 2) v) (Suc (i * 2)) w) (i * 2) = Math_fround v"
    and "f32get (f32set (f32set a (i * 2) v) (Suc (i * 2)) w) (Suc (i * 2)) = Math_fround w"
  using assms by (simp_all add: f32get_def f32set_def)

lemma updateParticle_eq:
  assumes "i < length (particles s)" and "length (forces s) = 2 * length (particles s)"
  shows "updateParticle dt clock i s =
    (let f = particleForce (clock i) (particles s ! i) s;
         p4 = particle_step dt (clock i) s (particles s ! i)
     in Inr (s\<lparr> forces := f32set (f32set (forces s) (i * 2) (fst f)) (i * 2 + 1) (snd f),
               particles := (particles s)[i := p4],
               spatialHash := (if useSpatialHashing s then hash_add (cellKey s p4) i (spatialHash s)
                               else spatialHash s),
               positions := f32set (f32set (positions s) (i * 2) (p_x p4)) (i * 2 + 1) (p_y p4),
               velocities := f32set (f32set (velocities s) (i * 2) (p_vx p4)) (i * 2 + 1) (p_vy p4) \<rparr>))"
proof -
  have r: "Suc (i * 2) < length (forces s)" using assms by simp
  obtain fx fy where f: "particleForce (clock i) (particles s ! i) s = (fx, fy)"
    by (cases "particleForce (clock i) (particles s ! i) s")
  show ?thesis
    using assms(1)
    by (simp add: updateParticle_def applyParticleForces_def f Let_def f32get_set2_Suc[OF r]
        updateSpatialHash_eq particle_step_def stored_force_def)
qed

lemma env_fields:
  assumes "env t = env s"
  shows "width t = width s" "height t = height s" "params t = params s"
    "currentScene t = currentScene s" "audioInfluence t = audioInfluence s"
    "cellSize t = cellSize s" "useSpatialHashing t = useSpatialHashing s"
  using assms by (simp_all add: env_def)

lemma env_particleForce:
  assumes "env t = env s"
  shows "particleForce now p t = particleForce now p s"
  unfolding particleForce_def sceneForce_def by (simp only: env_fields[OF assms])

lemma env_handleBoundaries:
  assumes "env t = env s"
  shows "handleBoundaries t p = handleBoundaries s p"
  unfolding handleBoundaries_def by (simp only: env_fields[OF assms])

lemma env_stored_force:
  assumes "env t = env s"
  shows "stored_force now p t = stored_force now p s"
  unfolding stored_force_def by (simp only: env_particleForce[OF assms])

lemma env_integrate:
  assumes "env t = env s"
  shows "integrate fx fy dt t p = integrate fx fy dt s p"
  unfolding integrate_def by (simp only: env_fields[OF assms])

lemma env_particle_step:
  assumes "env t = env s"
  shows "particle_step dt now t = particle_step dt now s"
  unfolding particle_step_def
  by (rule ext)
     (simp only: env_stored_force[OF assms] env_integrate[OF assms] env_handleBoundaries[OF assms])

lemma env_cellKey:
  assumes "env t = env s"
  shows "cellKey t = cellKey s"
  unfolding cellKey_def by (rule ext) (simp only: env_fields[OF assms])

lemma spec_hash_Suc: "hash_add (cell j) j (spec_hash cell j) = spec_hash cell (Suc j)"
  by (rule ext) (auto simp: hash_add_def spec_hash_def Let_def)

lemma forM_snoc:
  "forM (is @ [i]) body s = (case forM is body s of Inl e \<Rightarrow> Inl e | Inr s' \<Rightarrow> body i s')"
  by (induction "is" arbitrary: s) (auto split: sum.splits)

lemma forM_upt_inv:
  assumes "a \<le> b" and "P a s"
    and step: "\<And>i t. a \<le> i \<Longrightarrow> i < b \<Longrightarrow> P i t \<Longrightarrow> \<exists>t'. body i t = Inr t' \<and> P (Suc i) t'"
  shows "\<exists>s'. forM [a ..< b] body s = Inr s' \<and> P b s'"
  using assms(1) step
proof (induction b)
  case 0
  then show ?case using assms(2) by simp
next
  case (Suc b)
  show ?case
  proof (cases "a = Suc b")
    case True
    then show ?thesis using assms(2) by simp
  next
    case False
    then have ab: "a \<le> b" using Suc.prems(1) by simp
    have "\<exists>s'. forM [a ..< b] body s = Inr s' \<and> P b s'"
      using Suc.IH[OF ab] Suc.prems(2) by (meson less_Suc_eq)
    then obtain s1 where s1: "forM [a ..< b] body s = Inr s1" "P b s1" by blast
    obtain s2 where s2: "body b s1 = Inr s2" "P (Suc b) s2"
      using Suc.prems(2)[OF ab _ s1(2)] by auto
    show ?thesis using ab s1 s2 by (simp add: forM_snoc)
  qed
qed

lemma upd_inv_step:
  assumes inv: "upd_inv dt clock s0 j t" and j: "j < length (particles s0)"
  shows "\<exists>t'. updateParticle dt clock j t = Inr t' \<and> upd_inv dt clock s0 (Suc j) t'"
proof -
  let ?n = "length (particles s0)"
  have e: "env t = env s0" and len: "length (particles t) = ?n" and sz: "sized t"
    using inv by (simp_all add: upd_inv_def)
  have P: "\<And>k. k < ?n \<Longrightarrow> particles t ! k =
      (if k < j then particle_step dt (clock k) s0 (particles s0 ! k) else particles s0 ! k)"
    using inv by (simp add: upd_inv_def)
  have S: "\<And>k. k < j \<Longrightarrow>
                forces t ! (k * 2) = fst (stored_force (clock k) (particles s0 ! k) s0)
              \<and> forces t ! (k * 2 + 1) = snd (stored_force (clock k) (particles s0 ! k) s0)
              \<and> positions t ! (k * 2) = Math_fround (p_x (particles t ! k))
              \<and> positions t ! (k * 2 + 1) = Math_fround (p_y (particles t ! k))
              \<and> velocities t ! (k * 2) = Math_fround (p_vx (particles t ! k))
              \<and> velocities t ! (k * 2 + 1) = Math_fround (p_vy (particles t ! k))"
    using inv by (simp add: upd_inv_def)
  have H: "spatialHash t =
        (if useSpatialHashing s0
         then spec_hash (\<lambda>k. cellKey s0 (particle_step dt (clock k) s0 (particles s0 ! k))) j
         else spatialHash s0)"
    using inv by (simp add: upd_inv_def)
  have R: "velocityField t = velocityField s0 \<and> pressureField t = pressureField s0
   \<and> useGPU t = useGPU s0 \<and> useWorkers t = useWorkers s0"
    using inv by (simp add: upd_inv_def)
  have ush: "useSpatialHashing t = useSpatialHashing s0" using e by (simp add: env_def)
  have pj: "particles t ! j = particles s0 ! j" using P[OF j] by simp
  define p4 where "p4 = particle_step dt (clock j) s0 (particles s0 ! j)"
  have p4: "particle_step dt (clock j) t (particles t ! j) = p4"
    by (simp add: env_particle_step[OF e] pj p4_def)
  define f where "f = particleForce (clock j) (particles t ! j) t"
  have f: "Math_fround (fst f) = fst (stored_force (clock j) (particles s0 ! j) s0)"
    "Math_fround (snd f) = snd (stored_force (clock j) (particles s0 ! j) s0)"
    by (simp_all add: f_def pj env_particleForce[OF e] stored_force_def)
  define t' where "t' = t\<lparr> forces := f32set (f32set (forces t) (j * 2) (fst f)) (j * 2 + 1) (snd f),
               particles := (particles t)[j := p4],
               spatialHash := (if useSpatialHashing t then hash_add (cellKey t p4) j (spatialHash t)
                               else spatialHash t),
               positions := f32set (f32set (positions t) (j * 2) (p_x p4)) (j * 2 + 1) (p_y p4),
               velocities := f32set (f32set (velocities t) (j * 2) (p_vx p4)) (j * 2 + 1) (p_vy p4) \<rparr>"
  have eq: "updateParticle dt clock j t = Inr t'"
    using updateParticle_eq[of j t dt clock] j len sz
    by (simp add: sized_def Let_def p4 f_def t'_def)
  have e': "env t' = env s0" using e by (simp add: t'_def env_def)
  have len': "length (particles t') = ?n" using len by (simp add: t'_def)
  have sz': "sized t'" using sz by (simp add: t'_def sized_def)
  have P': "\<forall>k < ?n. particles t' ! k =
      (if k < Suc j then particle_step dt (clock k) s0 (particles s0 ! k) else particles s0 ! k)"
    using P j len by (auto simp: t'_def nth_list_update p4_def less_Suc_eq)
  have lf: "length (forces t) = 2 * ?n" and lp: "length (positions t) = 2 * ?n"
    and lv: "length (velocities t) = 2 * ?n"
    using sz len by (simp_all add: sized_def)
  have S': "\<forall>k < Suc j.
                forces t' ! (k * 2) = fst (stored_force (clock k) (particles s0 ! k) s0)
              \<and> forces t' ! (k * 2 + 1) = snd (stored_force (clock k) (particles s0 ! k) s0)
              \<and> positions t' ! (k * 2) = Math_fround (p_x (particles t' ! k))
              \<and> positions t' ! (k * 2 + 1) = Math_fround (p_y (particles t' ! k))
              \<and> velocities t' ! (k * 2) = Math_fround (p_vx (particles t' ! k))
              \<and> velocities t' ! (k * 2 + 1) = Math_fround (p_vy (particles t' ! k))"
  proof (intro allI impI)
    fix k assume k: "k < Suc j"
    show "forces t' ! (k * 2) = fst (stored_force (clock k) (particles s0 ! k) s0)
              \<and> forces t' ! (k * 2 + 1) = snd (stored_force (clock k) (particles s0 ! k) s0)
              \<and> positions t' ! (k * 2) = Math_fround (p_x (particles t' ! k))
              \<and> positions t' ! (k * 2 + 1) = Math_fround (p_y (particles t' ! k))
              \<and> velocities t' ! (k * 2) = Math_fround (p_vx (particles t' ! k))
              \<and> velocities t' ! (k * 2 + 1) = Math_fround (p_vy (particles t' ! k))"
    proof (cases "k = j")
      case True
      then show ?thesis using j len lf lp lv f
        by (simp add: t'_def f32set_def nth_list_update)
    next
      case False
      then have kj: "k < j" using k by simp
      then show ?thesis using S[OF kj] j len lf lp lv False
        by (simp add: t'_def f32set_def nth_list_update)
    qed
  qed
  have H': "spatialHash t' =
        (if useSpatialHashing s0
         then spec_hash (\<lambda>k. cellKey s0 (particle_step dt (clock k) s0 (particles s0 ! k))) (Suc j)
         else spatialHash s0)"
    using H ush
    by (simp add: t'_def env_cellKey[OF e] p4_def
        spec_hash_Suc[of "\<lambda>k. cellKey s0 (particle_step dt (clock k) s0 (particles s0 ! k))" j])
  have R': "velocityField t' = velocityField s0 \<and> pressureField t' = pressureField s0
   \<and> useGPU t' = useGPU s0 \<and> useWorkers t' = useWorkers s0"
    using R by (simp add: t'_def)
  have "upd_inv dt clock s0 (Suc j) t'"
    unfolding upd_inv_def using e' len' sz' P' S' H' R' by blast
  then show ?thesis using eq by blast
qed

lemma upd_inv_batch:
  assumes "upd_inv dt clock s0 a t" and "a \<le> b" and "b \<le> length (particles s0)"
  shows "\<exists>t'. updateParticleBatch a b dt clock t = Inr t' \<and> upd_inv dt clock s0 b t'"
  unfolding updateParticleBatch_def
proof (rule forM_upt_inv[where P = "upd_inv dt clock s0", OF assms(2) assms(1)])
  fix i u
  assume "a \<le> i" "i < b" "upd_inv dt clock s0 i u"
  then show "\<exists>t'. updateParticle dt clock i u = Inr t' \<and> upd_inv dt clock s0 (Suc i) t'"
    using upd_inv_step[of dt clock s0 i u] assms(3) by simp
qed

lemma upd_inv_loop:
  assumes "upd_inv dt clock s0 (min i (length (particles s0))) t"
  shows "\<exists>t'. update_loop i dt clock t = Inr t' \<and> upd_inv dt clock s0 (length (particles s0)) t'"
  using assms
proof (induction i dt clock t rule: update_loop.induct)
  case (1 i dt clock s)
  let ?n = "length (particles s0)"
  have len: "length (particles s) = ?n" using "1.prems" by (simp add: upd_inv_def)
  show ?case
  proof (cases "i < ?n")
    case True
    then have "min i ?n = i" by simp
    then have inv: "upd_inv dt clock s0 i s" using "1.prems" by simp
    obtain s' where s': "updateParticleBatch i (min (i + 100) ?n) dt clock s = Inr s'"
      "upd_inv dt clock s0 (min (i + 100) ?n) s'"
      using upd_inv_batch[OF inv, of "min (i + 100) ?n"] True by auto
    have "\<exists>t'. update_loop (i + 100) dt clock s' = Inr t' \<and> upd_inv dt clock s0 ?n t'"
      using "1.IH"[of s'] True len s' by simp
    then show ?thesis
      using True len s'(1) by (subst update_loop.simps) simp
  next
    case False
    then have "min i ?n = ?n" by simp
    then have "upd_inv dt clock s0 ?n s" using "1.prems" by simp
    then show ?thesis using False len by (subst update_loop.simps) simp
  qed
qed

lemma upd_inv_init:
  assumes "sized s" and "\<not> useSpatialHashing s \<or> spatialHash s = Map.empty"
  shows "upd_inv dt clock s 0 s"
  using assms by (auto simp: upd_inv_def spec_hash_def)

lemma spec_hash_cong:
  assumes "\<And>k. k < j \<Longrightarrow> c k = c' k"
  shows "spec_hash c j = spec_hash c' j"
proof -
  have "filter (\<lambda>k. c k = key) [0 ..< j] = filter (\<lambda>k. c' k = key) [0 ..< j]" for key
    by (rule filter_cong) (auto simp: assms)
  then show ?thesis by (simp add: spec_hash_def)
qed

lemma update_result:
  assumes sz: "sized s"
  shows "\<exists>s'. update deltaTime audioData clock s = Inr s'
     \<and> env s' = env (audio_applied audioData s)
     \<and> length (particles s') = length (particles s)
     \<and> sized s'
     \<and> (\<forall>k < length (particles s).
           particles s' ! k =
             particle_step (frame_dt deltaTime) (clock k) (audio_applied audioData s) (particles s ! k))
     \<and> (\<forall>k < length (particles s).
             forces s' ! (k * 2)
               = fst (stored_force (clock k) (particles s ! k) (audio_applied audioData s))
           \<and> forces s' ! (k * 2 + 1)
               = snd (stored_force (clock k) (particles s ! k) (audio_applied audioData s))
           \<and> positions s' ! (k * 2) = Math_fround (p_x (particles s' ! k))
           \<and> positions s' ! (k * 2 + 1) = Math_fround (p_y (particles s' ! k))
           \<and> velocities s' ! (k * 2) = Math_fround (p_vx (particles s' ! k))
           \<and> velocities s' ! (k * 2 + 1) = Math_fround (p_vy (particles s' ! k)))
     \<and> spatialHash s' =
          (if useSpatialHashing s
           then spec_hash (\<lambda>k. cellKey s (particles s' ! k)) (length (particles s))
           else spatialHash s)"
proof -
  let ?dt = "frame_dt deltaTime"
  let ?s1 = "audio_applied audioData s"
  let ?s2 = "if useSpatialHashing ?s1 then ?s1\<lparr> spatialHash := Map.empty \<rparr> else ?s1"
  let ?n = "length (particles s)"
  have s1: "particles ?s1 = particles s" "sized ?s1" "useSpatialHashing ?s1 = useSpatialHashing s"
    "spatialHash ?s1 = spatialHash s" "cellKey ?s1 = cellKey s"
    using sz by (auto simp: audio_applied_def updateAudioInfluence_def sized_def cellKey_def
        split: option.splits)
  have s2: "particles ?s2 = particles s" "sized ?s2" "env ?s2 = env ?s1"
    "useSpatialHashing ?s2 = useSpatialHashing s"
    "\<not> useSpatialHashing ?s2 \<or> spatialHash ?s2 = Map.empty"
    "\<not> useSpatialHashing s \<longrightarrow> spatialHash ?s2 = spatialHash s"
    using s1 by (auto simp: sized_def env_def)
  have "upd_inv ?dt clock ?s2 (min 0 (length (particles ?s2))) ?s2"
    using upd_inv_init[OF s2(2) s2(5)] by simp
  from upd_inv_loop[OF this]
  obtain s3 where s3: "update_loop 0 ?dt clock ?s2 = Inr s3" "upd_inv ?dt clock ?s2 ?n s3"
    unfolding s2(1) by blast
  let ?s' = "updateVelocityField ?dt (applySceneForces ?dt s3)"
  have upd: "update deltaTime audioData clock s = Inr ?s'"
    unfolding update_def Let_def
    by (simp only: frame_dt_def[symmetric] audio_applied_def[symmetric] s3(1) sum.case)
  have same: "particles ?s' = particles s3" "positions ?s' = positions s3"
    "velocities ?s' = velocities s3" "forces ?s' = forces s3" "env ?s' = env s3"
    "spatialHash ?s' = spatialHash s3"
    by (simp_all add: updateVelocityField_def applySceneForces_def env_def)
  have e3: "env s3 = env ?s2" and l3: "length (particles s3) = ?n" and z3: "sized s3"
    using s3(2) s2(1) by (simp_all add: upd_inv_def)
  have P3: "\<And>k. k < ?n \<Longrightarrow> particles s3 ! k = particle_step ?dt (clock k) ?s1 (particles s ! k)"
    using s3(2) s2(1) env_particle_step[OF s2(3)] by (simp add: upd_inv_def)
  have S3: "\<And>k. k < ?n \<Longrightarrow>
                forces s3 ! (k * 2) = fst (stored_force (clock k) (particles s ! k) ?s1)
              \<and> forces s3 ! (k * 2 + 1) = snd (stored_force (clock k) (particles s ! k) ?s1)
              \<and> positions s3 ! (k * 2) = Math_fround (p_x (particles s3 ! k))
              \<and> positions s3 ! (k * 2 + 1) = Math_fround (p_y (particles s3 ! k))
              \<and> velocities s3 ! (k * 2) = Math_fround (p_vx (particles s3 ! k))
              \<and> velocities s3 ! (k * 2 + 1) = Math_fround (p_vy (particles s3 ! k))"
    using s3(2) s2(1) env_stored_force[OF s2(3)] by (simp add: upd_inv_def)
  have ck: "cellKey ?s2 = cellKey s" using env_cellKey[OF s2(3)] s1(5) by simp
  have H3: "spatialHash s3 =
        (if useSpatialHashing s
         then spec_hash (\<lambda>k. cellKey s (particle_step ?dt (clock k) ?s2 (particles s ! k))) ?n
         else spatialHash s)"
    using s3(2) s2(1) s2(4) s2(6) ck by (simp add: upd_inv_def)
  have H3': "spec_hash (\<lambda>k. cellKey s (particle_step ?dt (clock k) ?s2 (particles s ! k))) ?n
      = spec_hash (\<lambda>k. cellKey s (particles s3 ! k)) ?n"
    by (rule spec_hash_cong) (simp add: P3 env_particle_step[OF s2(3)])
  have z': "sized ?s'" using z3 by (simp add: sized_def same)
  have c2: "env ?s' = env ?s1" by (simp only: same e3 s2(3))
  have c3: "length (particles ?s') = ?n" by (simp only: same l3)
  have c5: "\<forall>k < ?n. particles ?s' ! k = particle_step ?dt (clock k) ?s1 (particles s ! k)"
    using P3 by (simp add: same)
  have c6: "\<forall>k < ?n.
             forces ?s' ! (k * 2) = fst (stored_force (clock k) (particles s ! k) ?s1)
           \<and> forces ?s' ! (k * 2 + 1) = snd (stored_force (clock k) (particles s ! k) ?s1)
           \<and> positions ?s' ! (k * 2) = Math_fround (p_x (particles ?s' ! k))
           \<and> positions ?s' ! (k * 2 + 1) = Math_fround (p_y (particles ?s' ! k))
           \<and> velocities ?s' ! (k * 2) = Math_fround (p_vx (particles ?s' ! k))
           \<and> velocities ?s' ! (k * 2 + 1) = Math_fround (p_vy (particles ?s' ! k))"
    using S3 by (simp add: same)
  have c7: "spatialHash ?s' =
          (if useSpatialHashing s
           then spec_hash (\<lambda>k. cellKey s (particles ?s' ! k)) ?n
           else spatialHash s)"
    by (simp only: same H3 H3')
  show ?thesis
    using upd c2 c3 z' c5 c6 c7 by blast
qed

section \<open>The steps of the source and the steps of the specification\<close>

lemma handleBoundaries_spec:
  "handleBoundaries s p = spec_boundary (width s) (height s) p"
  by (simp add: handleBoundaries_def spec_boundary_def spec_wall_def Let_def)

lemma particle_step_spec:
  "particle_step dt now s p =
     spec_step (stored_force now p s) dt (speed (params s)) (width s) (height s) p"
  by (simp only: particle_step_def spec_step_def handleBoundaries_spec integrate_spec prod.collapse)

lemma cellKey_spec: "cellSize s = Num 20 \<Longrightarrow> cellKey s p = spec_cell p"
  by (simp add: cellKey_def spec_cell_def)

section \<open>Batches, buffers and a running example\<close>

lemma update_loop_from:
  assumes "m = (length (particles t) + 99) div 100" and "k \<le> m"
  shows "update_loop (k * 100) dt clock t =
     runBatches (map (\<lambda>k. (k * 100, min (k * 100 + 100) (length (particles t)))) [k ..< m]) dt clock t"
  using assms
proof (induction "m - k" arbitrary: k t)
  case 0
  then have km: "k = m" by simp
  then have "\<not> k * 100 < length (particles t)" using "0.prems"(1) by simp
  then show ?case using km by (subst update_loop.simps) simp
next
  case (Suc d)
  then have km: "k < m" by simp
  then have lt: "k * 100 < length (particles t)" using Suc.prems(1) by simp
  have upt: "[k ..< m] = k # [Suc k ..< m]" using km by (simp add: upt_rec)
  show ?case
  proof (cases "updateParticleBatch (k * 100) (min (k * 100 + 100) (length (particles t))) dt clock t")
    case (Inl e)
    then show ?thesis using lt by (subst update_loop.simps) (simp add: upt)
  next
    case (Inr t')
    have len: "length (particles t') = length (particles t)"
      using updateParticleBatch_length[OF Inr] .
    have IH: "update_loop (k * 100 + 100) dt clock t' =
       runBatches (map (\<lambda>k. (k * 100, min (k * 100 + 100) (length (particles t')))) [Suc k ..< m]) dt clock t'"
      using Suc.hyps(1)[of "Suc k" t'] Suc.hyps(2) Suc.prems(1) km len
      by (simp add: add.commute)
    have "update_loop (k * 100) dt clock t = update_loop (k * 100 + 100) dt clock t'"
      using lt Inr by (subst update_loop.simps) (simp only: if_True sum.case)
    also note IH
    finally show ?thesis
      using Inr len by (simp add: upt)
  qed
qed

lemma update_loop_batches:
  "update_loop 0 dt clock t = runBatches (batchRanges (length (particles t))) dt clock t"
  using update_loop_from[of "(length (particles t) + 99) div 100" t 0 dt clock]
  by (simp add: batchRanges_def)

lemma sized_demo: "sized demo"
  by (simp add: sized_def demo_def Float32Array_def)

lemma update_empty_audio:
  assumes "sized s"
  shows "\<exists>s'. update deltaTime (Some []) clock s = Inr s' \<and> audioInfluence s' = NaN"
proof -
  obtain s' where s': "update deltaTime (Some []) clock s = Inr s'"
    "env s' = env (audio_applied (Some []) s)"
    using update_result[OF assms, of deltaTime "Some []" clock] by blast
  have "audioInfluence s' = audioInfluence (audio_applied (Some []) s)"
    using env_fields(5)[OF s'(2)] .
  also have "\<dots> = NaN" by (simp add: audio_applied_def updateAudioInfluence_def)
  finally show ?thesis using s'(1) by blast
qed

lemma sqrt_25: "sqrt 25 = 5"
  using real_sqrt_abs[of 5] by simp

lemma sqrt_lt_50: "0 \<le> q \<Longrightarrow> (q < 2500) = (sqrt q < 50)"
proof -
  assume "0 \<le> q"
  have "sqrt 2500 = 50" using real_sqrt_abs[of 50] by simp
  then show ?thesis using real_sqrt_less_iff[of q 2500] by simp
qed

lemma addForceParticle_frame:
  "p_x (addForceParticle x y st p) = p_x p \<and> p_y (addForceParticle x y st p) = p_y p
   \<and> p_life (addForceParticle x y st p) = p_life p \<and> p_color (addForceParticle x y st p) = p_color p
   \<and> p_size (addForceParticle x y st p) = p_size p"
  by (simp add: addForceParticle_def Let_def)

lemma sized_addForce: "sized (addForce x y st s) = sized s"
  by (simp add: sized_def addForce_def)

lemma addForceParticle_outside:
  assumes "\<not> within_radius x y p"
  shows "addForceParticle x y st p = p"
proof (cases "(p_x p - x) * (p_x p - x) + (p_y p - y) * (p_y p - y)")
  case (Num q)
  have "\<not> (0 \<le> q \<and> sqrt q < 50)"
    using assms by (auto simp: within_radius_def Num)
  then have "\<not> (q < 2500 \<and> 0 < q)"
    using sqrt_lt_50[of q] by auto
  then show ?thesis by (auto simp: addForceParticle_def Let_def Num)
next
  case NaN
  then show ?thesis by (simp add: addForceParticle_def Let_def)
qed

lemma update_mirrors:
  assumes "sized s"
  shows "\<exists>s'. update deltaTime audioData clock s = Inr s' \<and> sized s'
     \<and> length (particles s') = length (particles s)
     \<and> mirrors_positions s' \<and> mirrors_velocities s'"
proof -
  obtain s' where s': "update deltaTime audioData clock s = Inr s'"
     "length (particles s') = length (particles s)" "sized s'"
     "\<forall>k < length (particles s).
             positions s' ! (k * 2) = Math_fround (p_x (particles s' ! k))
           \<and> positions s' ! (k * 2 + 1) = Math_fround (p_y (particles s' ! k))
           \<and> velocities s' ! (k * 2) = Math_fround (p_vx (particles s' ! k))
           \<and> velocities s' ! (k * 2 + 1) = Math_fround (p_vy (particles s' ! k))"
    using update_result[OF assms, of deltaTime audioData clock] by blast
  have "mirrors_positions s'" "mirrors_velocities s'"
    using s'(2,3,4)
    by (auto simp: mirrors_positions_def mirrors_velocities_def f32get_def sized_def mult.commute)
  then show ?thesis using s'(1,2,3) by blast
qed

lemma addForceParticle_num:
  assumes "p_x p = Num a" "p_y p = Num b" "p_vx p = Num u" "p_vy p = Num v"
  shows "addForceParticle (Num cx) (Num cy) (Num st) p =
     (let d = sqrt ((a - cx) * (a - cx) + (b - cy) * (b - cy))
      in if 0 < d \<and> d < 50 then
           p\<lparr> p_vx := Num (u + (a - cx) / d * ((50 - d) / 50 * st * 100)),
              p_vy := Num (v + (b - cy) / d * ((50 - d) / 50 * st * 100)) \<rparr>
         else p)"
proof -
  let ?q = "(a - cx) * (a - cx) + (b - cy) * (b - cy)"
  have q: "0 \<le> ?q" by simp
  have lt: "(?q < 2500) = (sqrt ?q < 50)" by (rule sqrt_lt_50[OF q])
  have pos: "(0 < ?q) = (0 < sqrt ?q)" by simp
  show ?thesis
    unfolding addForceParticle_def Let_def
    using q lt by (simp add: assms)
qed

section \<open>Construction and the reachable states\<close>

lemma init_inv_step:
  assumes inv: "init_inv s0 i t" and i: "i * 2 + 1 < length (positions s0)"
    "i * 2 + 1 < length (velocities s0)"
  shows "\<exists>t'. initializeParticle rnd i t = Inr t' \<and> init_inv s0 (Suc i) t'"
proof -
  have len: "length (particles t) = i" and lp: "length (positions t) = length (positions s0)"
    and lv: "length (velocities t) = length (velocities s0)"
    using inv by (simp_all add: init_inv_def)
  have S: "\<And>k. k < i \<Longrightarrow> positions t ! (k * 2) = Math_fround (p_x (particles t ! k))
              \<and> positions t ! (k * 2 + 1) = Math_fround (p_y (particles t ! k))
              \<and> velocities t ! (k * 2) = Math_fround (p_vx (particles t ! k))
              \<and> velocities t ! (k * 2 + 1) = Math_fround (p_vy (particles t ! k))"
    using inv by (simp add: init_inv_def)
  have R: "t\<lparr> particles := [], positions := [], velocities := [] \<rparr>
       = s0\<lparr> particles := [], positions := [], velocities := [] \<rparr>"
    using inv by (simp add: init_inv_def)
  define p where "p = \<lparr> p_x = Num (rnd (5 * i)) * width t,
                p_y = Num (rnd (5 * i + 1)) * height t,
                p_vx = (Num (rnd (5 * i + 2)) - Num 0.5) * Num 2,
                p_vy = (Num (rnd (5 * i + 3)) - Num 0.5) * Num 2,
                p_life = Num 1.0,
                p_color = getParticleColor i,
                p_size = Num (rnd (5 * i + 4)) * Num 3 + Num 1 \<rparr>"
  define t' where "t' = t\<lparr> particles := particles t @ [p],
                   positions := f32set (f32set (positions t) (i * 2) (p_x p)) (i * 2 + 1) (p_y p),
                   velocities := f32set (f32set (velocities t) (i * 2) (p_vx p)) (i * 2 + 1) (p_vy p) \<rparr>"
  have nth: "(particles t @ [p]) ! i = p" using len by (simp add: nth_append)
  have eq: "initializeParticle rnd i t = Inr t'"
    unfolding initializeParticle_def Let_def p_def[symmetric]
    using len by (simp add: nth t'_def)
  have a: "length (particles t') = Suc i" using len by (simp add: t'_def)
  have b: "length (positions t') = length (positions s0)" "length (velocities t') = length (velocities s0)"
    using lp lv by (simp_all add: t'_def f32set_def)
  have c: "\<forall>k < Suc i. positions t' ! (k * 2) = Math_fround (p_x (particles t' ! k))
              \<and> positions t' ! (k * 2 + 1) = Math_fround (p_y (particles t' ! k))
              \<and> velocities t' ! (k * 2) = Math_fround (p_vx (particles t' ! k))
              \<and> velocities t' ! (k * 2 + 1) = Math_fround (p_vy (particles t' ! k))"
  proof (intro allI impI)
    fix k assume k: "k < Suc i"
    show "positions t' ! (k * 2) = Math_fround (p_x (particles t' ! k))
              \<and> positions t' ! (k * 2 + 1) = Math_fround (p_y (particles t' ! k))
              \<and> velocities t' ! (k * 2) = Math_fround (p_vx (particles t' ! k))
              \<and> velocities t' ! (k * 2 + 1) = Math_fround (p_vy (particles t' ! k))"
    proof (cases "k = i")
      case True
      then show ?thesis using i lp lv len
        by (simp add: t'_def f32set_def nth_list_update nth_append)
    next
      case False
      then have ki: "k < i" using k by simp
      then show ?thesis using S[OF ki] i lp lv len False
        by (simp add: t'_def f32set_def nth_list_update nth_append)
    qed
  qed
  have d: "t'\<lparr> particles := [], positions := [], velocities := [] \<rparr>
       = s0\<lparr> particles := [], positions := [], velocities := [] \<rparr>"
    using R by (simp add: t'_def)
  have "init_inv s0 (Suc i) t'"
    unfolding init_inv_def using a b c d by blast
  then show ?thesis using eq by blast
qed

lemma initializeParticles_ok:
  assumes "length (positions s) = 2 * particleCount (params s)"
    and "length (velocities s) = 2 * particleCount (params s)"
  shows "\<exists>s'. initializeParticles rnd s = Inr s'
     \<and> length (particles s') = particleCount (params s)
     \<and> length (positions s') = 2 * particleCount (params s)
     \<and> length (velocities s') = 2 * particleCount (params s)
     \<and> mirrors_positions s' \<and> mirrors_velocities s'
     \<and> s'\<lparr> particles := [], positions := [], velocities := [] \<rparr>
         = s\<lparr> particles := [], positions := [], velocities := [] \<rparr>"
proof -
  let ?s0 = "s\<lparr> particles := [] \<rparr>"
  let ?n = "particleCount (params s)"
  have init: "init_inv ?s0 0 ?s0" by (simp add: init_inv_def)
  have "\<exists>s'. forM [0 ..< ?n] (initializeParticle rnd) ?s0 = Inr s' \<and> init_inv ?s0 ?n s'"
  proof (rule forM_upt_inv[where P = "init_inv ?s0", OF _ init])
    fix i t assume "i < ?n" "init_inv ?s0 i t"
    then show "\<exists>t'. initializeParticle rnd i t = Inr t' \<and> init_inv ?s0 (Suc i) t'"
      using init_inv_step[of ?s0 i t rnd] assms by simp
  qed simp
  then obtain s' where s': "initializeParticles rnd s = Inr s'" "init_inv ?s0 ?n s'"
    by (auto simp: initializeParticles_def)
  have l: "length (particles s') = ?n" "length (positions s') = 2 * ?n"
    "length (velocities s') = 2 * ?n"
    using s'(2) assms by (simp_all add: init_inv_def)
  have m: "mirrors_positions s'" "mirrors_velocities s'"
    using s'(2) l
    by (auto simp: init_inv_def mirrors_positions_def mirrors_velocities_def f32get_def mult.commute)
  have r: "s'\<lparr> particles := [], positions := [], velocities := [] \<rparr>
         = s\<lparr> particles := [], positions := [], velocities := [] \<rparr>"
    using s'(2) by (simp add: init_inv_def)
  show ?thesis using s'(1) l m r by blast
qed

lemma rest_fields:
  assumes "s'\<lparr> particles := [], positions := [], velocities := [] \<rparr>
         = s\<lparr> particles := [], positions := [], velocities := [] \<rparr>"
  shows "forces s' = forces s" "params s' = params s" "width s' = width s" "height s' = height s"
proof -
  have "forces (s'\<lparr> particles := [], positions := [], velocities := [] \<rparr>)
      = forces (s\<lparr> particles := [], positions := [], velocities := [] \<rparr>)"
    "params (s'\<lparr> particles := [], positions := [], velocities := [] \<rparr>)
      = params (s\<lparr> particles := [], positions := [], velocities := [] \<rparr>)"
    "width (s'\<lparr> particles := [], positions := [], velocities := [] \<rparr>)
      = width (s\<lparr> particles := [], positions := [], velocities := [] \<rparr>)"
    "height (s'\<lparr> particles := [], positions := [], velocities := [] \<rparr>)
      = height (s\<lparr> particles := [], positions := [], velocities := [] \<rparr>)"
    using assms by simp_all
  then show "forces s' = forces s" "params s' = params s" "width s' = width s" "height s' = height s"
    by simp_all
qed

lemma initializeFields_fields:
  assumes "initializeFields s = Inr s'"
  shows "particles s' = particles s" "positions s' = positions s" "velocities s' = velocities s"
    "forces s' = forces s" "params s' = params s"
  using assms
  by (auto simp: initializeFields_def Let_def split: jsnum.splits if_splits)



lemma FluidSimulation_wf:
  assumes "FluidSimulation w h arg rnd = Inr s"
  shows "length (particles s) = or_default (arg_particleCount arg) 1000
     \<and> wf s \<and> mirrors_velocities s"
proof -
  define ps where "ps = \<lparr> viscosity = or_default (arg_viscosity arg) (Num 0.0001),
                 density = or_default (arg_density arg) (Num 1.0),
                 speed = or_default (arg_speed arg) (Num 1.0),
                 particleCount = or_default (arg_particleCount arg) 1000,
                 resolution = or_default (arg_resolution arg) (Num 1.0) \<rparr>"
  define s0 where "s0 = \<lparr> width = w, height = h, params = ps,
                particles = [], velocityField = [], pressureField = [],
                useGPU = True, useWorkers = True, useSpatialHashing = True,
                spatialHash = Map.empty, cellSize = Num 20,
                forces = Float32Array (particleCount ps * 2),
                positions = Float32Array (particleCount ps * 2),
                velocities = Float32Array (particleCount ps * 2),
                currentScene = ''default'', audioInfluence = Num 0 \<rparr>"
  have n: "particleCount (params s0) = or_default (arg_particleCount arg) 1000"
    by (simp add: s0_def ps_def)
  have l0: "length (positions s0) = 2 * particleCount (params s0)"
    "length (velocities s0) = 2 * particleCount (params s0)"
    "length (forces s0) = 2 * particleCount (params s0)"
    by (simp_all add: s0_def Float32Array_def)
  obtain s1 where s1: "initializeParticles rnd s0 = Inr s1"
     "length (particles s1) = particleCount (params s0)"
     "length (positions s1) = 2 * particleCount (params s0)"
     "length (velocities s1) = 2 * particleCount (params s0)"
     "mirrors_positions s1" "mirrors_velocities s1"
     "s1\<lparr> particles := [], positions := [], velocities := [] \<rparr>
         = s0\<lparr> particles := [], positions := [], velocities := [] \<rparr>"
    using initializeParticles_ok[OF l0(1,2), of rnd] by blast
  have f: "initializeFields s1 = Inr s"
    using assms s1(1) unfolding FluidSimulation_def Let_def ps_def[symmetric] s0_def[symmetric]
    by simp
  note F = initializeFields_fields[OF f]
  note R = rest_fields[OF s1(7)]
  have "mirrors_positions s" "mirrors_velocities s"
    using s1(5,6) by (simp_all add: mirrors_positions_def mirrors_velocities_def F)
  moreover have "sized s" using s1(2,3,4) l0(3) by (simp add: sized_def F R)
  moreover have "length (particles s) = particleCount (params s)" using s1(2) by (simp add: F R)
  ultimately show ?thesis using n by (simp add: wf_def F R)
qed


lemma setParticleCount_changed:
  assumes "N \<noteq> particleCount (params s0)"
  shows "\<exists>s. setParticleCount N rnd s0 = Inr s \<and> length (particles s) = N
     \<and> particleCount (params s) = N \<and> sized s
     \<and> mirrors_positions s \<and> mirrors_velocities s"
proof -
  let ?t = "s0\<lparr> params := (params s0)\<lparr> particleCount := N \<rparr>,
              forces := Float32Array (N * 2),
              positions := Float32Array (N * 2),
              velocities := Float32Array (N * 2) \<rparr>"
  have l: "length (positions ?t) = 2 * particleCount (params ?t)"
    "length (velocities ?t) = 2 * particleCount (params ?t)"
    by (simp_all add: Float32Array_def)
  obtain s where s: "initializeParticles rnd ?t = Inr s"
     "length (particles s) = particleCount (params ?t)"
     "length (positions s) = 2 * particleCount (params ?t)"
     "length (velocities s) = 2 * particleCount (params ?t)"
     "mirrors_positions s" "mirrors_velocities s"
     "s\<lparr> particles := [], positions := [], velocities := [] \<rparr>
         = ?t\<lparr> particles := [], positions := [], velocities := [] \<rparr>"
    using initializeParticles_ok[OF l, of rnd] by blast
  note R = rest_fields(1,2)[OF s(7)]
  have "sized s" using s(2,3,4) by (simp add: sized_def R Float32Array_def)
  moreover have "particleCount (params s) = N" by (simp add: R)
  ultimately show ?thesis
    using s(1,2,5,6) assms by (simp add: setParticleCount_def)
qed

lemma reachable_wf: "reachable s \<Longrightarrow> wf s"
proof (induction rule: reachable.induct)
  case (r_new w h arg rnd s)
  then show ?case using FluidSimulation_wf by blast
next
  case (r_update s deltaTime audioData clock s')
  then have sz: "sized s" by (simp add: wf_def)
  obtain t where t: "update deltaTime audioData clock s = Inr t"
    "env t = env (audio_applied audioData s)" "length (particles t) = length (particles s)"
    "sized t"
    using update_result[OF sz, of deltaTime audioData clock] by blast
  obtain u where u: "update deltaTime audioData clock s = Inr u" "mirrors_positions u"
    using update_mirrors[OF sz, of deltaTime audioData clock] by blast
  have "params t = params s"
    using env_fields(3)[OF t(2)]
    by (simp add: audio_applied_def updateAudioInfluence_def split: option.splits)
  then show ?case using r_update t u by (simp add: wf_def)
next
  case (r_addForce s x y strength)
  then show ?case
    by (simp add: wf_def sized_addForce)
       (simp add: addForce_def mirrors_positions_def addForceParticle_frame)
next
  case (r_setParticleCount s count rnd s')
  show ?case
  proof (cases "count = particleCount (params s)")
    case True
    then show ?thesis using r_setParticleCount by (simp add: setParticleCount_def)
  next
    case False
    then show ?thesis
      using setParticleCount_changed[OF False, of rnd] r_setParticleCount(2)
      by (auto simp: wf_def)
  qed
next
  case (r_resize s w h s')
  note F = initializeFields_fields[OF r_resize(2)[unfolded resize_def]]
  show ?case using r_resize(3)
    by (simp add: wf_def sized_def mirrors_positions_def F)
next
  case (r_resize_thrown s w h)
  then show ?case by (simp add: wf_def sized_def mirrors_positions_def)
next
  case (r_setScene s sceneName)
  then show ?case by (simp add: wf_def sized_def mirrors_positions_def setScene_def)
next
  case (r_setViscosity s v)
  then show ?case by (simp add: wf_def sized_def mirrors_positions_def setViscosity_def)
next
  case (r_setDensity s v)
  then show ?case by (simp add: wf_def sized_def mirrors_positions_def setDensity_def)
next
  case (r_setSpeed s v)
  then show ?case by (simp add: wf_def sized_def mirrors_positions_def setSpeed_def)
next
  case (r_setResolution s v)
  then show ?case by (simp add: wf_def sized_def mirrors_positions_def setResolution_def)
qed

lemma fround_10_5: "fround 10 = 10" "fround 5 = 5"
  by (simp_all add: fround_eval)

lemma tiny_new: "FluidSimulation (Num 20) (Num 10) tiny_arg (\<lambda>i. 1 / 2) = Inr tiny"
  by (simp add: FluidSimulation_def tiny_arg_def or_default_def initializeParticles_def
      initializeParticle_def initializeFields_def getParticleColor_def Float32Array_def
      f32set_def tiny_def numeral_2_eq_2 fround_10_5)

lemma fround_rounded: "fround 6 = 6" "fround 3 = 3" "fround (- (2 / 5)) = - 13421773 / 33554432"
  by (simp_all add: fround_eval)

lemma rounded_new: "FluidSimulation (Num 20) (Num 10) tiny_arg (\<lambda>i. 3 / 10) = Inr rounded"
  by (simp add: FluidSimulation_def tiny_arg_def or_default_def initializeParticles_def
      initializeParticle_def initializeFields_def getParticleColor_def Float32Array_def
      f32set_def rounded_def numeral_2_eq_2 fround_rounded)

lemma reachable_constants: "reachable s \<Longrightarrow> useSpatialHashing s \<and> cellSize s = Num 20"
proof (induction rule: reachable.induct)
  case (r_new w h arg rnd s)
  define ps where "ps = \<lparr> viscosity = or_default (arg_viscosity arg) (Num 0.0001),
                 density = or_default (arg_density arg) (Num 1.0),
                 speed = or_default (arg_speed arg) (Num 1.0),
                 particleCount = or_default (arg_particleCount arg) 1000,
                 resolution = or_default (arg_resolution arg) (Num 1.0) \<rparr>"
  define s0 where "s0 = \<lparr> width = w, height = h, params = ps,
                particles = [], velocityField = [], pressureField = [],
                useGPU = True, useWorkers = True, useSpatialHashing = True,
                spatialHash = Map.empty, cellSize = Num 20,
                forces = Float32Array (particleCount ps * 2),
                positions = Float32Array (particleCount ps * 2),
                velocities = Float32Array (particleCount ps * 2),
                currentScene = ''default'', audioInfluence = Num 0 \<rparr>"
  have l0: "length (positions s0) = 2 * particleCount (params s0)"
    "length (velocities s0) = 2 * particleCount (params s0)"
    by (simp_all add: s0_def Float32Array_def)
  obtain s1 where s1: "initializeParticles rnd s0 = Inr s1"
     "s1\<lparr> particles := [], positions := [], velocities := [] \<rparr>
         = s0\<lparr> particles := [], positions := [], velocities := [] \<rparr>"
    using initializeParticles_ok[OF l0, of rnd] by blast
  have "useSpatialHashing (s1\<lparr> particles := [], positions := [], velocities := [] \<rparr>)
      = useSpatialHashing (s0\<lparr> particles := [], positions := [], velocities := [] \<rparr>)"
    "cellSize (s1\<lparr> particles := [], positions := [], velocities := [] \<rparr>)
      = cellSize (s0\<lparr> particles := [], positions := [], velocities := [] \<rparr>)"
    using s1(2) by simp_all
  then have c1: "useSpatialHashing s1" "cellSize s1 = Num 20" by (simp_all add: s0_def)
  have f: "initializeFields s1 = Inr s"
    using r_new s1(1) unfolding FluidSimulation_def Let_def ps_def[symmetric] s0_def[symmetric]
    by simp
  then show ?case using c1
    by (auto simp: initializeFields_def Let_def split: jsnum.splits if_splits)
next
  case (r_update s deltaTime audioData clock s')
  have sz: "sized s" using reachable_wf[OF r_update(1)] by (simp add: wf_def)
  obtain t where t: "update deltaTime audioData clock s = Inr t"
    "env t = env (audio_applied audioData s)"
    using update_result[OF sz, of deltaTime audioData clock] by blast
  have "useSpatialHashing t = useSpatialHashing s" "cellSize t = cellSize s"
    using env_fields(6,7)[OF t(2)]
    by (simp_all add: audio_applied_def updateAudioInfluence_def split: option.splits)
  then show ?case using r_update t(1) by simp
next
  case (r_addForce s x y strength)
  then show ?case by (simp add: addForce_def)
next
  case (r_setParticleCount s count rnd s')
  show ?case
  proof (cases "count = particleCount (params s)")
    case True
    then show ?thesis using r_setParticleCount by (simp add: setParticleCount_def)
  next
    case False
    let ?t = "s\<lparr> params := (params s)\<lparr> particleCount := count \<rparr>,
              forces := Float32Array (count * 2),
              positions := Float32Array (count * 2),
              velocities := Float32Array (count * 2) \<rparr>"
    have l: "length (positions ?t) = 2 * particleCount (params ?t)"
      "length (velocities ?t) = 2 * particleCount (params ?t)"
      by (simp_all add: Float32Array_def)
    obtain u where u: "initializeParticles rnd ?t = Inr u"
       "u\<lparr> particles := [], positions := [], velocities := [] \<rparr>
         = ?t\<lparr> particles := [], positions := [], velocities := [] \<rparr>"
      using initializeParticles_ok[OF l, of rnd] by blast
    have "useSpatialHashing (u\<lparr> particles := [], positions := [], velocities := [] \<rparr>)
        = useSpatialHashing (?t\<lparr> particles := [], positions := [], velocities := [] \<rparr>)"
      "cellSize (u\<lparr> particles := [], positions := [], velocities := [] \<rparr>)
        = cellSize (?t\<lparr> particles := [], positions := [], velocities := [] \<rparr>)"
      using u(2) by simp_all
    then have "useSpatialHashing u = useSpatialHashing s" "cellSize u = cellSize s" by simp_all
    moreover have "s' = u" using r_setParticleCount(2) False u(1) by (simp add: setParticleCount_def)
    ultimately show ?thesis using r_setParticleCount(3) by simp
  qed
next
  case (r_resize s w h s')
  then show ?case
    by (auto simp: resize_def initializeFields_def Let_def split: jsnum.splits if_splits)
next
  case (r_resize_thrown s w h)
  then show ?case by simp
next
  case (r_setScene s sceneName)
  then show ?case by (simp add: setScene_def)
next
  case (r_setViscosity s v)
  then show ?case by (simp add: setViscosity_def)
next
  case (r_setDensity s v)
  then show ?case by (simp add: setDensity_def)
next
  case (r_setSpeed s v)
  then show ?case by (simp add: setSpeed_def)
next
  case (r_setResolution s v)
  then show ?case by (simp add: setResolution_def)
qed

section \<open>The quality ladder\<close>

lemma rank_simps:
  "rank ''low'' = 0" "rank ''medium'' = 1" "rank ''high'' = 2" "rank ''ultra'' = 3"
  by (simp_all add: rank_def)

lemma decreaseQuality_level:
  "currentQualityLevel m = ''ultra'' \<Longrightarrow> currentQualityLevel (decreaseQuality m) = ''high''"
  "currentQualityLevel m = ''high'' \<Longrightarrow> currentQualityLevel (decreaseQuality m) = ''medium''"
  "currentQualityLevel m = ''medium'' \<Longrightarrow> currentQualityLevel (decreaseQuality m) = ''low''"
  "currentQualityLevel m = ''low'' \<Longrightarrow> currentQualityLevel (decreaseQuality m) = ''low''"
  by (simp_all add: decreaseQuality_def applyQualitySettings_def Let_def)

lemma increaseQuality_level:
  "currentQualityLevel m = ''low'' \<Longrightarrow> currentQualityLevel (increaseQuality m) = ''medium''"
  "currentQualityLevel m = ''medium'' \<Longrightarrow> currentQualityLevel (increaseQuality m) = ''high''"
  "currentQualityLevel m = ''high'' \<Longrightarrow> currentQualityLevel (increaseQuality m) = ''ultra''"
  "currentQualityLevel m = ''ultra'' \<Longrightarrow> currentQualityLevel (increaseQuality m) = ''ultra''"
  by (simp_all add: increaseQuality_def applyQualitySettings_def Let_def)

lemma decreaseQuality_history [simp]:
  "performanceHistory (decreaseQuality m) = performanceHistory m"
  by (simp add: decreaseQuality_def applyQualitySettings_def Let_def del: indexOf.simps)

lemma increaseQuality_history [simp]:
  "performanceHistory (increaseQuality m) = performanceHistory m"
  by (simp add: increaseQuality_def applyQualitySettings_def Let_def del: indexOf.simps)

lemma adjustQuality_enabled:
  assumes "adaptiveQuality m"
  shows "adjustQuality fps target m =
     (let h2 = (if maxHistoryLength m < length (performanceHistory m @ [fps])
                then tl (performanceHistory m @ [fps]) else performanceHistory m @ [fps]);
          m1 = m\<lparr> performanceHistory := h2 \<rparr>
      in if window_avg h2 < fpsMin (optimizationThresholds m) then decreaseQuality m1
         else if fpsMax (optimizationThresholds m) < window_avg h2
                 \<and> currentQualityLevel m \<noteq> ''ultra''
         then increaseQuality m1
         else m1)"
  unfolding adjustQuality_def Let_def window_avg_def
  using assms by (simp split del: if_split cong: if_cong)

lemma foldl_plus_replicate:
  "foldl (+) (Num a) (replicate n (Num b)) = Num (a + real n * b)"
  by (induction n arbitrary: a) (simp_all add: algebra_simps)

lemma window_avg_slow: "window_avg (replicate 59 (Num 30) @ [Num 30]) = Num 30"
  by (simp add: window_avg_def foldl_plus_replicate)

section \<open>Settling promises, finding tasks\<close>

lemma settle_other_fields [simp]:
  "taskQueue (settle p v st) = taskQueue st" "availableWorkers (settle p v st) = availableWorkers st"
  "inbox (settle p v st) = inbox st" "workers (settle p v st) = workers st"
  "promises (settle p v st) = promises st" "isInitialized (settle p v st) = isInitialized st"
  "maxWorkers (settle p v st) = maxWorkers st"
  by (simp_all add: settle_def)

lemma settle_pending:
  "map_of (settlements st) p = None \<Longrightarrow> settlements (settle p v st) = settlements st @ [(p, v)]"
  by (simp add: settle_def)

lemma map_of_append_None:
  "map_of l p = None \<Longrightarrow> map_of (l @ l') p = map_of l' p"
  by (simp add: map_add_def map_of_append split: option.splits)

lemma reject_all:
  assumes "distinct (map t_promise ts)"
    and "\<forall>t \<in> set ts. map_of (settlements st) (t_promise t) = None"
  shows "settlements (foldl (\<lambda>s task. settle (t_promise task) (Rejected err) s) st ts)
       = settlements st @ map (\<lambda>t. (t_promise t, Rejected err)) ts"
  using assms
proof (induction ts arbitrary: st)
  case Nil
  then show ?case by simp
next
  case (Cons t ts)
  have p: "map_of (settlements st) (t_promise t) = None" using Cons.prems(2) by simp
  let ?st1 = "settle (t_promise t) (Rejected err) st"
  have s1: "settlements ?st1 = settlements st @ [(t_promise t, Rejected err)]"
    using settle_pending[OF p] .
  have "\<forall>u \<in> set ts. map_of (settlements ?st1) (t_promise u) = None"
  proof
    fix u assume u: "u \<in> set ts"
    then have "t_promise u \<in> set (map t_promise ts)" by simp
    moreover have "t_promise t \<notin> set (map t_promise ts)" using Cons.prems(1) by simp
    ultimately have "t_promise u \<noteq> t_promise t" by metis
    moreover have "map_of (settlements st) (t_promise u) = None" using Cons.prems(2) u by simp
    ultimately show "map_of (settlements ?st1) (t_promise u) = None"
      by (simp add: s1 map_of_append_None)
  qed
  moreover have "distinct (map t_promise ts)" using Cons.prems(1) by simp
  ultimately show ?case using Cons.IH[of ?st1] by (simp add: s1)
qed

lemma reject_all_fields [simp]:
  "taskQueue (foldl (\<lambda>s task. settle (t_promise task) v s) st ts) = taskQueue st"
  "availableWorkers (foldl (\<lambda>s task. settle (t_promise task) v s) st ts) = availableWorkers st"
  "inbox (foldl (\<lambda>s task. settle (t_promise task) v s) st ts) = inbox st"
  by (induction ts arbitrary: st) simp_all

lemma settle_only_settlements:
  "settle p v st = st\<lparr> settlements := settlements (settle p v st) \<rparr>"
  by (simp add: settle_def)

lemma reject_all_only_settlements:
  "foldl (\<lambda>s task. settle (t_promise task) v s) st ts
     = st\<lparr> settlements := settlements (foldl (\<lambda>s task. settle (t_promise task) v s) st ts) \<rparr>"
proof (induction ts arbitrary: st)
  case Nil
  then show ?case by simp
next
  case (Cons t ts)
  let ?st1 = "settle (t_promise t) v st"
  let ?res = "foldl (\<lambda>s task. settle (t_promise task) v s) ?st1 ts"
  have "?res = ?st1\<lparr> settlements := settlements ?res \<rparr>" using Cons.IH[of ?st1] .
  also have "\<dots> = st\<lparr> settlements := settlements ?res \<rparr>"
    by (subst settle_only_settlements[of "t_promise t" v st]) simp
  finally show ?case by simp
qed

lemma handleWorkerError_eq:
  assumes "pool_inv st"
  shows "handleWorkerError w err st =
     returnWorker w
       (st\<lparr> settlements := settlements st
               @ map (\<lambda>t. (t_promise t, Rejected err))
                   (filter (\<lambda>t. t_worker t = Some w) (taskQueue st)),
             taskQueue := filter (\<lambda>t. t_worker t \<noteq> Some w) (taskQueue st) \<rparr>)"
proof -
  let ?ts = "filter (\<lambda>t. t_worker t = Some w) (taskQueue st)"
  let ?st1 = "foldl (\<lambda>s task. settle (t_promise task) (Rejected err) s) st ?ts"
  have d: "distinct (map t_promise ?ts)"
    using assms by (simp add: pool_inv_def distinct_map_filter)
  have n: "\<forall>t \<in> set ?ts. map_of (settlements st) (t_promise t) = None"
    using assms by (simp add: pool_inv_def)
  have s: "settlements ?st1 = settlements st @ map (\<lambda>t. (t_promise t, Rejected err)) ?ts"
    using reject_all[OF d n] .
  have "?st1 = st\<lparr> settlements := settlements ?st1 \<rparr>"
    by (rule reject_all_only_settlements)
  then have e: "?st1 = st\<lparr> settlements := settlements st @ map (\<lambda>t. (t_promise t, Rejected err)) ?ts \<rparr>"
    using s by simp
  show ?thesis
    unfolding handleWorkerError_def Let_def by (simp add: e)
qed


lemma findIndex_Some:
  "findIndex P xs = Some i \<Longrightarrow> i < length xs \<and> P (xs ! i) \<and> (\<forall>j < i. \<not> P (xs ! j))"
proof (induction xs arbitrary: i)
  case Nil
  then show ?case by simp
next
  case (Cons a xs)
  show ?case
  proof (cases "P a")
    case True
    then show ?thesis using Cons.prems by simp
  next
    case False
    then obtain k where k: "findIndex P xs = Some k" "i = Suc k"
      using Cons.prems by (auto split: option.splits)
    from Cons.IH[OF k(1)] show ?thesis using False k(2) by (auto simp: less_Suc_eq_0_disj)
  qed
qed

lemma findIndex_None: "findIndex P xs = None \<longleftrightarrow> (\<forall>x \<in> set xs. \<not> P x)"
  by (induction xs) (auto split: option.splits)

lemma findIndex_distinct:
  assumes "distinct (map f xs)" and "t \<in> set xs"
  shows "\<exists>i. findIndex (\<lambda>u. f u = f t) xs = Some i \<and> i < length xs \<and> xs ! i = t"
proof -
  have "findIndex (\<lambda>u. f u = f t) xs \<noteq> None" using assms(2) by (auto simp: findIndex_None)
  then obtain i where i: "findIndex (\<lambda>u. f u = f t) xs = Some i" by auto
  from findIndex_Some[OF i] have l: "i < length xs" and e: "f (xs ! i) = f t" by auto
  obtain j where j: "j < length xs" "xs ! j = t" using assms(2) by (auto simp: in_set_conv_nth)
  have "map f xs ! i = map f xs ! j" using l j e by simp
  moreover have "i < length (map f xs)" "j < length (map f xs)" using l j(1) by simp_all
  ultimately have "i = j" using nth_eq_iff_index_eq[OF assms(1)] by blast
  then show ?thesis using i l j(2) by simp
qed

lemma processNextTask_settlements [simp]:
  "settlements (processNextTask st) = settlements st"
  by (simp add: processNextTask_def postMessage_def Let_def split: option.splits)

lemma returnWorker_fields [simp]:
  "settlements (returnWorker w st) = settlements st" "taskQueue (returnWorker w st) = taskQueue st"
  "inbox (returnWorker w st) = inbox st"
  by (simp_all add: returnWorker_def)

lemma returnWorker_available:
  "set (availableWorkers (returnWorker w st)) = insert w (set (availableWorkers st))"
  by (auto simp: returnWorker_def)

lemma message_resolves:
  assumes "pool_inv st" and "t \<in> set (taskQueue st)" and "r_taskId rep = t_id t"
  shows "map_of (settlements (handleWorkerMessage v rep st)) (t_promise t)
       = Some (Resolved (r_result rep))"
proof -
  have d: "distinct (map t_id (taskQueue st))" using assms(1) by (simp add: pool_inv_def)
  obtain i where i: "findIndex (\<lambda>u. t_id u = t_id t) (taskQueue st) = Some i" "taskQueue st ! i = t"
    using findIndex_distinct[OF d assms(2)] by blast
  have p: "map_of (settlements st) (t_promise t) = None"
    using assms(1,2) by (simp add: pool_inv_def)
  show ?thesis
    unfolding handleWorkerMessage_def Let_def assms(3) i(1)
    by (simp add: i(2) settle_def p map_add_def)
qed

lemma onmessage_taskId: "onmessage wclock m = Some rep \<Longrightarrow> r_taskId rep = m_taskId m"
  by (auto simp: onmessage_def split: if_splits payload.splits)

lemma processNextTask_assigns:
  assumes "findIndex (\<lambda>t. t_worker t = None) (taskQueue st) = Some i"
    and "availableWorkers st \<noteq> []"
  shows "processNextTask st =
     st\<lparr> availableWorkers := butlast (availableWorkers st),
         taskQueue := (taskQueue st)[i := (taskQueue st ! i)\<lparr> t_worker := Some (last (availableWorkers st)) \<rparr>],
         inbox := (inbox st)(last (availableWorkers st) :=
                    inbox st (last (availableWorkers st)) @ [message_of (taskQueue st ! i)]) \<rparr>"
proof -
  have "taskQueue st \<noteq> []" using findIndex_Some[OF assms(1)] by auto
  then show ?thesis
    using assms by (simp add: processNextTask_def postMessage_def Let_def message_of_def)
qed

lemma pool_inv_assign:
  assumes "pool_inv st" and "i < length (taskQueue st)"
  shows "pool_inv (st\<lparr> availableWorkers := a,
         taskQueue := (taskQueue st)[i := (taskQueue st ! i)\<lparr> t_worker := v \<rparr>],
         inbox := b \<rparr>)"
proof -
  let ?q = "(taskQueue st)[i := (taskQueue st ! i)\<lparr> t_worker := v \<rparr>]"
  have m1: "map t_id ?q = map t_id (taskQueue st)"
    using assms(2) by (simp add: map_update list_update_same_conv)
  have m2: "map t_promise ?q = map t_promise (taskQueue st)"
    using assms(2) by (simp add: map_update list_update_same_conv)
  have "\<forall>t \<in> set ?q. map_of (settlements st) (t_promise t) = None"
  proof
    fix t assume "t \<in> set ?q"
    then have "t_promise t \<in> set (map t_promise ?q)" by simp
    then have "t_promise t \<in> set (map t_promise (taskQueue st))" by (simp only: m2)
    then show "map_of (settlements st) (t_promise t) = None"
      using assms(1) by (auto simp: pool_inv_def)
  qed
  then show ?thesis using assms(1) unfolding pool_inv_def by (simp add: m1 m2)
qed

lemma map_of_rejections:
  assumes "distinct (map t_promise ts)" and "t \<in> set ts"
  shows "map_of (map (\<lambda>t. (t_promise t, v)) ts) (t_promise t) = Some v"
  using assms by (induction ts) (auto simp: image_iff)

lemma map_of_rejections_None:
  assumes "p \<notin> t_promise ` set ts"
  shows "map_of (map (\<lambda>t. (t_promise t, v)) ts) p = None"
  using assms by (induction ts) auto

lemma pool_inv_after_error:
  assumes "pool_inv st"
  shows "pool_inv (handleWorkerError w err st)"
proof -
  let ?ts = "filter (\<lambda>t. t_worker t = Some w) (taskQueue st)"
  let ?q = "filter (\<lambda>t. t_worker t \<noteq> Some w) (taskQueue st)"
  have d: "distinct (map t_promise (taskQueue st))" and di: "distinct (map t_id (taskQueue st))"
    and n: "\<forall>t \<in> set (taskQueue st). map_of (settlements st) (t_promise t) = None"
    using assms by (simp_all add: pool_inv_def)
  have "\<forall>t \<in> set ?q. map_of (settlements st @ map (\<lambda>t. (t_promise t, Rejected err)) ?ts) (t_promise t) = None"
  proof
    fix t assume t: "t \<in> set ?q"
    have "t_promise t \<notin> t_promise ` set ?ts"
    proof
      assume "t_promise t \<in> t_promise ` set ?ts"
      then obtain u where u: "u \<in> set ?ts" "t_promise u = t_promise t" by auto
      then have "u = t" using d t by (auto simp: distinct_map inj_on_def)
      then show False using u(1) t by simp
    qed
    then show "map_of (settlements st @ map (\<lambda>t. (t_promise t, Rejected err)) ?ts) (t_promise t) = None"
      using n t by (simp add: map_of_append_None map_of_rejections_None)
  qed
  then show ?thesis
    using d di
    by (simp add: handleWorkerError_eq[OF assms] pool_inv_def returnWorker_def distinct_map_filter)
qed

lemma busy_pool_built:
  "(run wclock [Executes ''a'' ''spatialHash'' hash_job, Executes ''b'' ''spatialHash'' hash_job,
                  Executes ''c'' ''spatialHash'' hash_job] (WorkerPool 2))
   = busy_pool\<lparr> inbox := (inbox busy_pool)(1 := [message_of (job ''a'' 0 (Some 1))]) \<rparr>"
  by (simp add: run_def executeTask_def initialize_def WorkerPool_def enqueue_def
      processNextTask_def postMessage_def busy_pool_def job_def message_of_def Let_def
      fun_eq_iff numeral_2_eq_2 numeral_3_eq_3)

lemma busy_pool_reached:
  "pool_event wclock (Errors 1 ''boom'')
     (run wclock [Executes ''a'' ''spatialHash'' hash_job, Executes ''b'' ''spatialHash'' hash_job,
                  Executes ''c'' ''spatialHash'' hash_job] (WorkerPool 2))
   = handleWorkerError 1 ''boom'' busy_pool"
proof -
  have "(busy_pool\<lparr> inbox := (inbox busy_pool)(1 := [message_of (job ''a'' 0 (Some 1))]) \<rparr>)
         \<lparr> inbox := (inbox (busy_pool\<lparr> inbox := (inbox busy_pool)(1 := [message_of (job ''a'' 0 (Some 1))]) \<rparr>))
                     (1 := tl (inbox (busy_pool\<lparr> inbox := (inbox busy_pool)(1 := [message_of (job ''a'' 0 (Some 1))]) \<rparr>) 1)) \<rparr>
        = busy_pool"
    by (simp add: busy_pool_def fun_eq_iff)
  then show ?thesis
    unfolding busy_pool_built pool_event.simps by simp
qed

lemma pool_inv_busy: "pool_inv busy_pool"
  by (simp add: pool_inv_def busy_pool_def job_def)

lemma error_on_busy_pool:
  "handleWorkerError 1 ''boom'' busy_pool =
     busy_pool\<lparr> settlements := [(0, Rejected ''boom'')],
                taskQueue := [job ''b'' 1 (Some 0), job ''c'' 2 None],
                availableWorkers := [1] \<rparr>"
  by (simp add: handleWorkerError_eq[OF pool_inv_busy] returnWorker_def)
     (simp add: busy_pool_def job_def)

lemma hash_reply:
  "onmessage wclock (message_of (job name p w))
     = Some \<lparr> r_type = ''spatialHashCalculated'', r_result = HashResult Map.empty,
              r_taskId = name \<rparr>"
  by (simp add: onmessage_def message_of_def job_def hash_job_def calculateSpatialHash_def)

section \<open>Boundary handling\<close>

lemma le_jsnum_cases: "Num 0 \<le> a \<Longrightarrow> \<exists>r. a = Num r \<and> 0 \<le> r"
  by (cases a) auto

lemma handleBoundaries_NaN:
  assumes "p_y p = NaN"
  shows "p_y (handleBoundaries s p) = NaN"
  using assms by (cases "height s") (simp_all add: handleBoundaries_def Let_def)


text \<open>
  C7, as stated, fails for a coordinate that is \<open>NaN\<close>. After the constructor (one
  particle), \<open>setScene('wave')\<close> and \<open>update(16, [])\<close>, which makes the audio influence
  \<open>NaN\<close>, the \<open>y\<close> of the particle is \<open>NaN\<close>; every comparison of \<open>handleBoundaries\<close> with
  it is false, so \<open>handleBoundaries\<close> leaves it, and it is not in \<open>[0, height]\<close>.
\<close>

theorem handleBoundaries_leaves_NaN_outside:
  "\<exists>s. FluidSimulation (Num 20) (Num 10) tiny_arg (\<lambda>i. 1 / 2) = Inr tiny
     \<and> update (Num 16) (Some []) (\<lambda>i. 0) (setScene ''wave'' tiny) = Inr s
     \<and> reachable s
     \<and> Num 0 \<le> width s \<and> Num 0 \<le> height s
     \<and> p_y (particles s ! 0) = NaN
     \<and> p_y (handleBoundaries s (particles s ! 0)) = NaN
     \<and> \<not> (Num 0 \<le> p_y (handleBoundaries s (particles s ! 0))
          \<and> p_y (handleBoundaries s (particles s ! 0)) \<le> height s)"
proof -
  let ?t = "setScene ''wave'' tiny"
  have r: "reachable ?t" using tiny_new by (intro r_setScene r_new)
  have sz: "sized ?t" using reachable_wf[OF r] by (simp add: wf_def)
  obtain s where s: "update (Num 16) (Some []) (\<lambda>i. 0) ?t = Inr s"
    and e: "env s = env (audio_applied (Some []) ?t)"
    and P: "\<forall>k < length (particles ?t). particles s ! k =
             particle_step (frame_dt (Num 16)) 0 (audio_applied (Some []) ?t) (particles ?t ! k)"
    using update_result[OF sz, of "Num 16" "Some []" "\<lambda>i. 0"] by blast
  have rs: "reachable s" using r_update[OF r s] .
  have "width s = Num 20" "height s = Num 10"
    using env_fields(1,2)[OF e]
    by (simp_all add: audio_applied_def updateAudioInfluence_def setScene_def tiny_def)
  then have wh: "Num 0 \<le> width s" "Num 0 \<le> height s" by simp_all
  have "particles s ! 0 = particle_step (frame_dt (Num 16)) 0 (audio_applied (Some []) ?t)
      (particles ?t ! 0)"
    using P by (simp add: setScene_def tiny_def)
  then have n: "p_y (particles s ! 0) = NaN"
    by (simp add: particle_step_def stored_force_def particleForce_def sceneForce_def
        audio_applied_def updateAudioInfluence_def setScene_def tiny_def integrate_def
        handleBoundaries_def Let_def frame_dt_def)
  have m: "p_y (handleBoundaries s (particles s ! 0)) = NaN"
    by (rule handleBoundaries_NaN[OF n])
  have o: "\<not> (Num 0 \<le> p_y (handleBoundaries s (particles s ! 0))
          \<and> p_y (handleBoundaries s (particles s ! 0)) \<le> height s)"
    unfolding m by simp
  show ?thesis
    by (rule exI[of _ s], intro conjI tiny_new s rs wh n m o)
qed

text \<open>
  C7, amended. On a canvas of non-negative width and height, \<open>handleBoundaries\<close> clamps a
  particle that left through a wall onto that wall and replaces the velocity component
  across the wall by \<open>-v * 0.8\<close>: \<open>x < 0\<close> gives \<open>x = 0\<close>, \<open>x > width\<close> gives \<open>x = width\<close>,
  and the same for \<open>y\<close> with the height. Consequently a particle whose coordinates are
  numbers, not \<open>NaN\<close>, lies in \<open>[0, width] \<times> [0, height]\<close> afterwards.
\<close>

theorem handleBoundaries_reflects:
  assumes "Num 0 \<le> width s" and "Num 0 \<le> height s"
  shows "(p_x p < Num 0 \<longrightarrow>
            p_x (handleBoundaries s p) = Num 0 \<and> p_vx (handleBoundaries s p) = - p_vx p * Num 0.8)
       \<and> (width s < p_x p \<longrightarrow>
            p_x (handleBoundaries s p) = width s \<and> p_vx (handleBoundaries s p) = - p_vx p * Num 0.8)
       \<and> (p_y p < Num 0 \<longrightarrow>
            p_y (handleBoundaries s p) = Num 0 \<and> p_vy (handleBoundaries s p) = - p_vy p * Num 0.8)
       \<and> (height s < p_y p \<longrightarrow>
            p_y (handleBoundaries s p) = height s \<and> p_vy (handleBoundaries s p) = - p_vy p * Num 0.8)
       \<and> (is_num (p_x p) \<and> is_num (p_y p) \<longrightarrow>
            Num 0 \<le> p_x (handleBoundaries s p) \<and> p_x (handleBoundaries s p) \<le> width s
          \<and> Num 0 \<le> p_y (handleBoundaries s p) \<and> p_y (handleBoundaries s p) \<le> height s)"
proof -
  obtain w where w: "width s = Num w" "0 \<le> w" using le_jsnum_cases[OF assms(1)] by blast
  obtain h where h: "height s = Num h" "0 \<le> h" using le_jsnum_cases[OF assms(2)] by blast
  show ?thesis
    using w(2) h(2)
    by (cases "p_x p"; cases "p_y p") (auto simp: handleBoundaries_def Let_def w(1) h(1))
qed

theorem handleBoundaries_reflects_witness:
  "Num 0 \<le> width demo \<and> Num 0 \<le> height demo
   \<and> handleBoundaries demo \<lparr> p_x = Num (-5), p_y = Num 700, p_vx = Num 2, p_vy = Num (-1),
        p_life = Num 1, p_color = Num 0, p_size = Num 1 \<rparr>
     = \<lparr> p_x = Num 0, p_y = Num 600, p_vx = Num (-1.6), p_vy = Num 0.8,
        p_life = Num 1, p_color = Num 0, p_size = Num 1 \<rparr>"
  using handleBoundaries_reflects[of demo "\<lparr> p_x = Num (-5), p_y = Num 700, p_vx = Num 2,
        p_vy = Num (-1), p_life = Num 1, p_color = Num 0, p_size = Num 1 \<rparr>"]
  by (simp add: demo_def handleBoundaries_def)
section \<open>The frame update\<close>

text \<open>
  C6. In every state that a simulation reaches, \<open>update(deltaTime, audioData)\<close> returns,
  and with \<open>dt = min(deltaTime / 1000, 0.016)\<close> every particle \<open>k\<close> ends as the result of,
  in this order: the force computation, which leaves in \<open>forces[2k]\<close> and \<open>forces[2k+1]\<close>
  the float32 values of the force of the particle as it was before the call; the velocity
  integration \<open>v += f * dt\<close> with this stored force \<open>f\<close>; the damping \<open>v *= 0.99\<close>; the
  position integration \<open>p += v * dt * speed\<close>; and the boundary handling, which clamps a
  coordinate that left the canvas to the wall and reflects the velocity with the factor
  0.8. The spatial hash maps every cell \<open>(\<lfloor>x / 20\<rfloor>, \<lfloor>y / 20\<rfloor>)\<close> that holds a particle
  after the update to the indices of the particles in it. The loop runs the batches of
  100 particles one after the other.
\<close>

theorem update_steps_in_order:
  assumes "reachable s"
  shows "\<exists>s'. update deltaTime audioData clock s = Inr s'
     \<and> length (particles s') = length (particles s)
     \<and> (\<forall>k < length (particles s).
           f32get (forces s') (2 * k)
             = Math_fround (fst (particleForce (clock k) (particles s ! k) (audio_applied audioData s)))
         \<and> f32get (forces s') (2 * k + 1)
             = Math_fround (snd (particleForce (clock k) (particles s ! k) (audio_applied audioData s)))
         \<and> particles s' ! k =
             spec_step (f32get (forces s') (2 * k), f32get (forces s') (2 * k + 1))
               (Math_min (deltaTime / Num 1000) (Num 0.016)) (speed (params s)) (width s) (height s)
               (particles s ! k))
     \<and> spatialHash s' = spec_hash (\<lambda>k. spec_cell (particles s' ! k)) (length (particles s))
     \<and> (\<forall>dt t. update_loop 0 dt clock t =
           runBatches (batchRanges (length (particles t))) dt clock t)"
proof -
  let ?n = "length (particles s)"
  let ?s1 = "audio_applied audioData s"
  have sz: "sized s" using reachable_wf[OF assms] by (simp add: wf_def)
  have ush: "useSpatialHashing s" and cs: "cellSize s = Num 20"
    using reachable_constants[OF assms] by simp_all
  obtain s' where u: "update deltaTime audioData clock s = Inr s'"
    and l: "length (particles s') = ?n" and z: "sized s'"
    and P: "\<forall>k < ?n. particles s' ! k =
             particle_step (frame_dt deltaTime) (clock k) ?s1 (particles s ! k)"
    and S: "\<forall>k < ?n.
             forces s' ! (k * 2) = fst (stored_force (clock k) (particles s ! k) ?s1)
           \<and> forces s' ! (k * 2 + 1) = snd (stored_force (clock k) (particles s ! k) ?s1)
           \<and> positions s' ! (k * 2) = Math_fround (p_x (particles s' ! k))
           \<and> positions s' ! (k * 2 + 1) = Math_fround (p_y (particles s' ! k))
           \<and> velocities s' ! (k * 2) = Math_fround (p_vx (particles s' ! k))
           \<and> velocities s' ! (k * 2 + 1) = Math_fround (p_vy (particles s' ! k))"
    and H: "spatialHash s' =
          (if useSpatialHashing s
           then spec_hash (\<lambda>k. cellKey s (particles s' ! k)) ?n
           else spatialHash s)"
    using update_result[OF sz, of deltaTime audioData clock] by blast
  have e1: "speed (params ?s1) = speed (params s)" "width ?s1 = width s" "height ?s1 = height s"
    by (simp_all add: audio_applied_def updateAudioInfluence_def split: option.splits)
  have lf: "length (forces s') = 2 * ?n" using z l by (simp add: sized_def)
  have K: "f32get (forces s') (2 * k)
             = Math_fround (fst (particleForce (clock k) (particles s ! k) ?s1))
         \<and> f32get (forces s') (2 * k + 1)
             = Math_fround (snd (particleForce (clock k) (particles s ! k) ?s1))
         \<and> particles s' ! k =
             spec_step (f32get (forces s') (2 * k), f32get (forces s') (2 * k + 1))
               (Math_min (deltaTime / Num 1000) (Num 0.016)) (speed (params s)) (width s) (height s)
               (particles s ! k)" if k: "k < ?n" for k
  proof -
    have g: "f32get (forces s') (2 * k) = fst (stored_force (clock k) (particles s ! k) ?s1)"
      "f32get (forces s') (2 * k + 1) = snd (stored_force (clock k) (particles s ! k) ?s1)"
      using S k lf by (simp_all add: f32get_def mult.commute)
    have "particles s' ! k = particle_step (frame_dt deltaTime) (clock k) ?s1 (particles s ! k)"
      using P k by simp
    also have "\<dots> = spec_step (stored_force (clock k) (particles s ! k) ?s1)
               (frame_dt deltaTime) (speed (params s)) (width s) (height s) (particles s ! k)"
      by (simp only: particle_step_spec e1)
    finally show ?thesis
      unfolding g by (simp add: stored_force_def frame_dt_def)
  qed
  have "spec_hash (\<lambda>k. cellKey s (particles s' ! k)) ?n
      = spec_hash (\<lambda>k. spec_cell (particles s' ! k)) ?n"
    by (rule spec_hash_cong) (simp add: cellKey_spec[OF cs])
  then have H': "spatialHash s' = spec_hash (\<lambda>k. spec_cell (particles s' ! k)) ?n"
    using H ush by simp
  show ?thesis
    using u l K H' update_loop_batches by blast
qed

theorem update_steps_in_order_witness:
  "reachable rounded
   \<and> (\<exists>s'. update (Num 16) None (\<lambda>i. 0) rounded = Inr s'
        \<and> length (particles s') = 1
        \<and> f32get (forces s') 0 = Num (2748779 / 68719476736)
        \<and> particles s' ! 0 =
            \<lparr> p_x = Num (6 + (- 0.4 + 2748779 / 68719476736 * 0.016) * 0.99 * 0.016),
              p_y = Num (3 + (- 0.4 + 2748779 / 68719476736 * 0.016) * 0.99 * 0.016),
              p_vx = Num ((- 0.4 + 2748779 / 68719476736 * 0.016) * 0.99),
              p_vy = Num ((- 0.4 + 2748779 / 68719476736 * 0.016) * 0.99),
              p_life = Num 1, p_color = Num 0, p_size = Num 1.9 \<rparr>
        \<and> spatialHash s' (Num 0, Num 0) = Some [0])"
proof -
  have r: "reachable rounded" using rounded_new by (rule r_new)
  have l: "length (particles rounded) = 1" by (simp add: rounded_def)
  have f: "particleForce 0 (particles rounded ! 0) (audio_applied None rounded)
      = (Num (1 / 25000), Num (1 / 25000))"
    by (simp add: particleForce_def sceneForce_def audio_applied_def rounded_def)
  have fr: "fround (1 / 25000) = 2748779 / 68719476736"
    by (simp add: fround_eval)
  obtain s' where s': "update (Num 16) None (\<lambda>i. 0) rounded = Inr s'"
      "length (particles s') = length (particles rounded)"
      "\<forall>k < length (particles rounded).
           f32get (forces s') (2 * k)
             = Math_fround (fst (particleForce 0 (particles rounded ! k) (audio_applied None rounded)))
         \<and> f32get (forces s') (2 * k + 1)
             = Math_fround (snd (particleForce 0 (particles rounded ! k) (audio_applied None rounded)))
         \<and> particles s' ! k =
             spec_step (f32get (forces s') (2 * k), f32get (forces s') (2 * k + 1))
               (Math_min (Num 16 / Num 1000) (Num 0.016)) (speed (params rounded)) (width rounded)
               (height rounded) (particles rounded ! k)"
      "spatialHash s' = spec_hash (\<lambda>k. spec_cell (particles s' ! k)) (length (particles rounded))"
    using update_steps_in_order[OF r, of "Num 16" None "\<lambda>i. 0"] by blast
  have g: "f32get (forces s') 0 = Num (2748779 / 68719476736)"
    "f32get (forces s') 1 = Num (2748779 / 68719476736)"
    using s'(3) l by (simp_all add: f fr)
  have "particles s' ! 0 = spec_step (f32get (forces s') 0, f32get (forces s') 1)
               (Math_min (Num 16 / Num 1000) (Num 0.016)) (speed (params rounded)) (width rounded)
               (height rounded) (particles rounded ! 0)"
    using s'(3) l by simp
  also have "\<dots> = \<lparr> p_x = Num (6 + (- 0.4 + 2748779 / 68719476736 * 0.016) * 0.99 * 0.016),
              p_y = Num (3 + (- 0.4 + 2748779 / 68719476736 * 0.016) * 0.99 * 0.016),
              p_vx = Num ((- 0.4 + 2748779 / 68719476736 * 0.016) * 0.99),
              p_vy = Num ((- 0.4 + 2748779 / 68719476736 * 0.016) * 0.99),
              p_life = Num 1, p_color = Num 0, p_size = Num 1.9 \<rparr>"
    unfolding g
    by (simp add: spec_step_def spec_boundary_def spec_wall_def spec_integratePosition_def
        spec_damp_def spec_integrateVelocity_def rounded_def)
  finally have p: "particles s' ! 0 =
            \<lparr> p_x = Num (6 + (- 0.4 + 2748779 / 68719476736 * 0.016) * 0.99 * 0.016),
              p_y = Num (3 + (- 0.4 + 2748779 / 68719476736 * 0.016) * 0.99 * 0.016),
              p_vx = Num ((- 0.4 + 2748779 / 68719476736 * 0.016) * 0.99),
              p_vy = Num ((- 0.4 + 2748779 / 68719476736 * 0.016) * 0.99),
              p_life = Num 1, p_color = Num 0, p_size = Num 1.9 \<rparr>" .
  have h: "spatialHash s' (Num 0, Num 0) = Some [0]"
    unfolding s'(4) l by (simp add: spec_hash_def spec_cell_def p)
  from s'(2) l have l': "length (particles s') = 1" by simp
  show ?thesis
    by (rule conjI[OF r]) (rule exI[of _ s'], intro conjI s'(1) l' g(1) p h)
qed

section \<open>An empty audio sample array\<close>

text \<open>
  C2. \<open>update(16, [])\<close> on a simulation whose audio influence is 1 returns without an
  exception, and the stored audio influence is \<open>NaN\<close> afterwards: the empty array is truthy,
  so \<open>updateAudioInfluence\<close> runs and divides 0 by 0. The value is not left unchanged.
\<close>

theorem update_empty_audio_NaN:
  "audioInfluence demo = Num 1
   \<and> (\<exists>s'. update (Num 16) (Some []) (\<lambda>i. 0) demo = Inr s' \<and> audioInfluence s' = NaN)"
  using update_empty_audio[OF sized_demo, of "Num 16" "\<lambda>i. 0"] by (simp add: demo_def)

section \<open>The interactive impulse\<close>

text \<open>
  C8. \<open>addForce(x, y, strength)\<close> with numbers for arguments, and a particle \<open>i\<close> whose
  position and velocity are numbers, at distance \<open>d\<close> from \<open>(x, y)\<close>: for \<open>d \<ge> 50\<close> and for
  \<open>d = 0\<close> the particle is unchanged; for \<open>0 < d < 50\<close> its velocity grows by
  \<open>(50 - d) / 50 * strength * 100\<close> times the unit vector from \<open>(x, y)\<close> to the particle; in
  every case the new velocity is a number, not \<open>NaN\<close>.
\<close>

theorem addForce_impulse:
  assumes "i < length (particles s)"
    and "p_x (particles s ! i) = Num a" and "p_y (particles s ! i) = Num b"
    and "p_vx (particles s ! i) = Num u" and "p_vy (particles s ! i) = Num v"
  shows "let d = sqrt ((a - cx) * (a - cx) + (b - cy) * (b - cy));
             p = particles s ! i;
             p' = particles (addForce (Num cx) (Num cy) (Num st) s) ! i
         in (50 \<le> d \<or> d = 0 \<longrightarrow> p' = p)
          \<and> (0 < d \<and> d < 50 \<longrightarrow>
               p' = p\<lparr> p_vx := Num (u + (a - cx) / d * ((50 - d) / 50 * st * 100)),
                       p_vy := Num (v + (b - cy) / d * ((50 - d) / 50 * st * 100)) \<rparr>
               \<and> ((a - cx) / d) * ((a - cx) / d) + ((b - cy) / d) * ((b - cy) / d) = 1)
          \<and> is_num (p_vx p') \<and> is_num (p_vy p')"
proof -
  let ?q = "(a - cx) * (a - cx) + (b - cy) * (b - cy)"
  have unit: "((a - cx) / sqrt ?q) * ((a - cx) / sqrt ?q) + ((b - cy) / sqrt ?q) * ((b - cy) / sqrt ?q) = 1"
    if "0 < sqrt ?q"
  proof -
    have ss: "sqrt ?q * sqrt ?q = ?q" by simp
    have q0: "?q \<noteq> 0" using that by auto
    have "((a - cx) / sqrt ?q) * ((a - cx) / sqrt ?q) + ((b - cy) / sqrt ?q) * ((b - cy) / sqrt ?q)
        = ((a - cx) * (a - cx) + (b - cy) * (b - cy)) / (sqrt ?q * sqrt ?q)"
      by (simp only: times_divide_times_eq add_divide_distrib)
    also have "\<dots> = ?q / ?q" by (simp only: ss)
    also have "\<dots> = 1" using q0 by simp
    finally show ?thesis .
  qed
  have p': "particles (addForce (Num cx) (Num cy) (Num st) s) ! i
      = addForceParticle (Num cx) (Num cy) (Num st) (particles s ! i)"
    using assms(1) by (simp add: addForce_def)
  show ?thesis
    unfolding Let_def p' addForceParticle_num[OF assms(2-5)]
    using unit by (auto simp: assms(4,5) Let_def)
qed

theorem addForce_impulse_witness:
  "1 < length (particles demo)
   \<and> particles demo ! 1 = \<lparr> p_x = Num 403, p_y = Num 304, p_vx = Num 0, p_vy = Num 2,
        p_life = Num 1, p_color = Num 137.508, p_size = Num 3 \<rparr>
   \<and> particles (addForce (Num 400) (Num 300) (Num 1) demo) ! 1
      = \<lparr> p_x = Num 403, p_y = Num 304, p_vx = Num 54, p_vy = Num 74,
        p_life = Num 1, p_color = Num 137.508, p_size = Num 3 \<rparr>"
proof -
  have l: "1 < length (particles demo)" by (simp add: demo_def)
  have p: "particles demo ! 1 = \<lparr> p_x = Num 403, p_y = Num 304, p_vx = Num 0, p_vy = Num 2,
        p_life = Num 1, p_color = Num 137.508, p_size = Num 3 \<rparr>" by (simp add: demo_def)
  show ?thesis
    using addForce_impulse[of 1 demo 403 304 0 2 400 300 1] l p
    by (simp add: Let_def sqrt_25)
qed
section \<open>What addForce leaves alone\<close>

lemma sqrt_2025: "sqrt 2025 = 45"
  using real_sqrt_abs[of 45] by simp

lemma sqrt_2500: "sqrt 2500 = 50"
  using real_sqrt_abs[of 50] by simp

text \<open>
  C10. \<open>addForce\<close> changes only the particle array, and in it only the fields \<open>vx\<close> and
  \<open>vy\<close> of the particles within its radius: \<open>x\<close>, \<open>y\<close>, \<open>life\<close>, \<open>color\<close> and \<open>size\<close> of
  every particle are as before, a particle whose distance from \<open>(x, y)\<close> is not below 50 is
  as before in every field, and the buffers \<open>positions\<close>, \<open>velocities\<close> and \<open>forces\<close> are
  as before, so the \<open>velocities\<close> buffer still holds the old values; the next \<open>update\<close>
  returns and stores the velocity of every particle into it again, as a float32.
\<close>

theorem addForce_frame:
  "addForce x y strength s = s\<lparr> particles := particles (addForce x y strength s) \<rparr>
   \<and> length (particles (addForce x y strength s)) = length (particles s)
   \<and> (\<forall>i < length (particles s).
         p_x (particles (addForce x y strength s) ! i) = p_x (particles s ! i)
       \<and> p_y (particles (addForce x y strength s) ! i) = p_y (particles s ! i)
       \<and> p_life (particles (addForce x y strength s) ! i) = p_life (particles s ! i)
       \<and> p_color (particles (addForce x y strength s) ! i) = p_color (particles s ! i)
       \<and> p_size (particles (addForce x y strength s) ! i) = p_size (particles s ! i)
       \<and> (\<not> within_radius x y (particles s ! i) \<longrightarrow>
            particles (addForce x y strength s) ! i = particles s ! i))
   \<and> positions (addForce x y strength s) = positions s
   \<and> velocities (addForce x y strength s) = velocities s
   \<and> forces (addForce x y strength s) = forces s
   \<and> (sized s \<longrightarrow>
        (\<exists>s'. update deltaTime audioData clock (addForce x y strength s) = Inr s'
              \<and> length (particles s') = length (particles s)
              \<and> (\<forall>i < length (particles s).
                    f32get (velocities s') (2 * i) = Math_fround (p_vx (particles s' ! i))
                  \<and> f32get (velocities s') (2 * i + 1) = Math_fround (p_vy (particles s' ! i)))))"
proof -
  have "sized s \<longrightarrow>
        (\<exists>s'. update deltaTime audioData clock (addForce x y strength s) = Inr s'
              \<and> length (particles s') = length (particles s)
              \<and> (\<forall>i < length (particles s).
                    f32get (velocities s') (2 * i) = Math_fround (p_vx (particles s' ! i))
                  \<and> f32get (velocities s') (2 * i + 1) = Math_fround (p_vy (particles s' ! i))))"
  proof
    assume "sized s"
    then have "sized (addForce x y strength s)" by (simp add: sized_addForce)
    from update_mirrors[OF this, of deltaTime audioData clock]
    obtain s' where s': "update deltaTime audioData clock (addForce x y strength s) = Inr s'"
      "length (particles s') = length (particles (addForce x y strength s))"
      "mirrors_velocities s'" by blast
    have l: "length (particles s') = length (particles s)" using s'(2) by (simp add: addForce_def)
    show "\<exists>s'. update deltaTime audioData clock (addForce x y strength s) = Inr s'
              \<and> length (particles s') = length (particles s)
              \<and> (\<forall>i < length (particles s).
                    f32get (velocities s') (2 * i) = Math_fround (p_vx (particles s' ! i))
                  \<and> f32get (velocities s') (2 * i + 1) = Math_fround (p_vy (particles s' ! i)))"
      using s'(1,3) l unfolding mirrors_velocities_def by auto
  qed
  then show ?thesis
    by (simp add: addForce_def addForceParticle_frame addForceParticle_outside)
qed

theorem addForce_frame_witness:
  "sized demo
   \<and> within_radius (Num 373) (Num 264) (particles demo ! 0)
   \<and> \<not> within_radius (Num 373) (Num 264) (particles demo ! 1)
   \<and> p_vx (particles (addForce (Num 373) (Num 264) (Num 1) demo) ! 0) = Num 7
   \<and> p_vy (particles (addForce (Num 373) (Num 264) (Num 1) demo) ! 0) = Num 8
   \<and> f32get (velocities (addForce (Num 373) (Num 264) (Num 1) demo)) 0 = Num 1
   \<and> particles (addForce (Num 373) (Num 264) (Num 1) demo) ! 1 = particles demo ! 1
   \<and> positions (addForce (Num 373) (Num 264) (Num 1) demo) = [Num 400, Num 300, Num 403, Num 304]
   \<and> (\<exists>s'. update (Num 16) None (\<lambda>i. 0) (addForce (Num 373) (Num 264) (Num 1) demo) = Inr s'
          \<and> f32get (velocities s') 0 = Math_fround (p_vx (particles s' ! 0)))"
proof -
  have w: "within_radius (Num 373) (Num 264) (particles demo ! 0)"
    "\<not> within_radius (Num 373) (Num 264) (particles demo ! 1)"
    by (simp_all add: within_radius_def demo_def sqrt_2025 sqrt_2500)
  have v: "p_vx (particles (addForce (Num 373) (Num 264) (Num 1) demo) ! 0) = Num 7"
    "p_vy (particles (addForce (Num 373) (Num 264) (Num 1) demo) ! 0) = Num 8"
    by (simp_all add: addForce_def demo_def addForceParticle_def Let_def sqrt_2025)
  have l: "length (particles demo) = 2" by (simp add: demo_def)
  let ?s = "addForce (Num 373) (Num 264) (Num 1) demo"
  note T = addForce_frame[of "Num 373" "Num 264" "Num 1" demo "Num 16" None "\<lambda>i. 0"]
  from T have "\<forall>i < length (particles demo).
      \<not> within_radius (Num 373) (Num 264) (particles demo ! i) \<longrightarrow>
        particles ?s ! i = particles demo ! i"
    by blast
  moreover have "1 < length (particles demo)" using l by simp
  ultimately have a: "particles ?s ! 1 = particles demo ! 1" using w(2) by blast
  from T have b: "velocities ?s = velocities demo" "positions ?s = positions demo" by blast+
  have b1: "f32get (velocities ?s) 0 = Num 1" unfolding b by (simp add: demo_def f32get_def)
  have b2: "positions ?s = [Num 400, Num 300, Num 403, Num 304]"
    unfolding b by (simp add: demo_def)
  from T sized_demo obtain s' where s': "update (Num 16) None (\<lambda>i. 0) ?s = Inr s'"
    "\<forall>i < length (particles demo).
        f32get (velocities s') (2 * i) = Math_fround (p_vx (particles s' ! i))
      \<and> f32get (velocities s') (2 * i + 1) = Math_fround (p_vy (particles s' ! i))"
    by blast
  have "0 < length (particles demo)" using l by simp
  from s'(2)[rule_format, OF this]
  have c: "f32get (velocities s') 0 = Math_fround (p_vx (particles s' ! 0))" by simp
  have "\<exists>s'. update (Num 16) None (\<lambda>i. 0) ?s = Inr s'
          \<and> f32get (velocities s') 0 = Math_fround (p_vx (particles s' ! 0))"
    using s'(1) c by blast
  then show ?thesis
    by (intro conjI sized_demo w v b1 a b2)
qed
section \<open>The typed buffers mirror the particles\<close>






section \<open>One step on the quality ladder\<close>

text \<open>
  C5, as stated, fails: while adaptive quality is switched off, \<open>adjustQuality\<close> returns
  at once. A sample of 30 frames per second on the tier Medium is not appended to the
  history and the tier stays Medium.
\<close>

theorem adjustQuality_disabled_ignores_sample:
  "performanceHistory (adjustQuality (Num 30) (Num 120) (setAdaptiveQuality False OptimizationManager)) = []
   \<and> currentQualityLevel (adjustQuality (Num 30) (Num 120) (setAdaptiveQuality False OptimizationManager))
       = ''medium''"
  by (simp add: adjustQuality_def setAdaptiveQuality_def OptimizationManager_def)

text \<open>
  C5, amended. With the thresholds and the window length of the constructor, a history of
  at most 60 samples and the tier one of Low, Medium, High, Ultra: a call of
  \<open>adjustQuality\<close> while adaptive quality is off changes nothing; a call while it is on
  appends the sample, drops the oldest sample when there were 60 already, and with the
  average of the new window moves the tier down one step when the average is below 45
  and the tier is not Low, up one step when the average is above 120 and the tier is not
  Ultra, and leaves it otherwise.
\<close>

theorem adjustQuality_one_step:
  assumes "maxHistoryLength m = 60"
    and "fpsMin (optimizationThresholds m) = Num 45"
    and "fpsMax (optimizationThresholds m) = Num 120"
    and "length (performanceHistory m) \<le> 60"
    and "currentQualityLevel m \<in> {''low'', ''medium'', ''high'', ''ultra''}"
  shows "(\<not> adaptiveQuality m \<longrightarrow> adjustQuality fps target m = m)
     \<and> (adaptiveQuality m \<longrightarrow>
         (let m' = adjustQuality fps target m;
              avg = window_avg (performanceHistory m')
          in performanceHistory m' =
               (if length (performanceHistory m) < 60 then performanceHistory m @ [fps]
                else tl (performanceHistory m) @ [fps])
           \<and> length (performanceHistory m') \<le> 60
           \<and> currentQualityLevel m' \<in> {''low'', ''medium'', ''high'', ''ultra''}
           \<and> rank (currentQualityLevel m') =
               (if avg < Num 45 \<and> currentQualityLevel m \<noteq> ''low''
                  then rank (currentQualityLevel m) - 1
                else if Num 120 < avg \<and> currentQualityLevel m \<noteq> ''ultra''
                  then rank (currentQualityLevel m) + 1
                else rank (currentQualityLevel m))))"
proof (intro conjI impI)
  show "adjustQuality fps target m = m" if "\<not> adaptiveQuality m"
    using that by (simp add: adjustQuality_def)
next
  assume a: "adaptiveQuality m"
  define h2 where "h2 = (if length (performanceHistory m) < 60 then performanceHistory m @ [fps]
                else tl (performanceHistory m) @ [fps])"
  define m1 where "m1 = m\<lparr> performanceHistory := h2 \<rparr>"
  have hh: "(if maxHistoryLength m < length (performanceHistory m @ [fps])
                then tl (performanceHistory m @ [fps]) else performanceHistory m @ [fps]) = h2"
  proof (cases "length (performanceHistory m) < 60")
    case True
    then show ?thesis using assms(1) by (simp add: h2_def)
  next
    case False
    then have "performanceHistory m \<noteq> []" by auto
    then show ?thesis using assms(1,4) False by (simp add: h2_def)
  qed
  have eq: "adjustQuality fps target m =
      (if window_avg h2 < Num 45 then decreaseQuality m1
       else if Num 120 < window_avg h2 \<and> currentQualityLevel m \<noteq> ''ultra''
       then increaseQuality m1
       else m1)"
    unfolding adjustQuality_enabled[OF a] Let_def hh m1_def[symmetric] assms(2,3) ..
  have l1: "currentQualityLevel m1 = currentQualityLevel m" "performanceHistory m1 = h2"
    by (simp_all add: m1_def)
  have h: "performanceHistory (adjustQuality fps target m) = h2"
    by (simp add: eq l1)
  have l: "length h2 \<le> 60"
    using assms(4) by (simp add: h2_def)
  have up: "\<not> window_avg h2 < Num 45" if "Num 120 < window_avg h2"
    using that by (cases "window_avg h2") auto
  have q: "currentQualityLevel (adjustQuality fps target m) \<in> {''low'', ''medium'', ''high'', ''ultra''}
     \<and> rank (currentQualityLevel (adjustQuality fps target m)) =
               (if window_avg h2 < Num 45 \<and> currentQualityLevel m \<noteq> ''low''
                  then rank (currentQualityLevel m) - 1
                else if Num 120 < window_avg h2 \<and> currentQualityLevel m \<noteq> ''ultra''
                  then rank (currentQualityLevel m) + 1
                else rank (currentQualityLevel m))"
  proof -
    consider "currentQualityLevel m1 = ''low''" | "currentQualityLevel m1 = ''medium''"
      | "currentQualityLevel m1 = ''high''" | "currentQualityLevel m1 = ''ultra''"
      using assms(5) l1(1) by auto
    then show ?thesis
    proof cases
      case 1
      then show ?thesis using up l1(1)
        by (simp add: eq decreaseQuality_level(4)[OF 1] increaseQuality_level(1)[OF 1] rank_simps)
    next
      case 2
      then show ?thesis using up l1(1)
        by (simp add: eq decreaseQuality_level(3)[OF 2] increaseQuality_level(2)[OF 2] rank_simps)
    next
      case 3
      then show ?thesis using up l1(1)
        by (simp add: eq decreaseQuality_level(2)[OF 3] increaseQuality_level(3)[OF 3] rank_simps)
    next
      case 4
      then show ?thesis using up l1(1)
        by (simp add: eq decreaseQuality_level(1)[OF 4] increaseQuality_level(4)[OF 4] rank_simps)
    qed
  qed
  show "let m' = adjustQuality fps target m;
              avg = window_avg (performanceHistory m')
          in performanceHistory m' =
               (if length (performanceHistory m) < 60 then performanceHistory m @ [fps]
                else tl (performanceHistory m) @ [fps])
           \<and> length (performanceHistory m') \<le> 60
           \<and> currentQualityLevel m' \<in> {''low'', ''medium'', ''high'', ''ultra''}
           \<and> rank (currentQualityLevel m') =
               (if avg < Num 45 \<and> currentQualityLevel m \<noteq> ''low''
                  then rank (currentQualityLevel m) - 1
                else if Num 120 < avg \<and> currentQualityLevel m \<noteq> ''ultra''
                  then rank (currentQualityLevel m) + 1
                else rank (currentQualityLevel m))"
    unfolding Let_def h using l q by (simp add: h2_def[symmetric])
qed

theorem adjustQuality_one_step_witness:
  "adaptiveQuality slow_manager \<and> length (performanceHistory slow_manager) = 60
   \<and> currentQualityLevel slow_manager = ''medium''
   \<and> performanceHistory (adjustQuality (Num 30) (Num 120) slow_manager)
       = replicate 59 (Num 30) @ [Num 30]
   \<and> rank (currentQualityLevel (adjustQuality (Num 30) (Num 120) slow_manager)) = 0"
proof -
  have s: "adaptiveQuality slow_manager" "maxHistoryLength slow_manager = 60"
    "fpsMin (optimizationThresholds slow_manager) = Num 45"
    "fpsMax (optimizationThresholds slow_manager) = Num 120"
    "length (performanceHistory slow_manager) \<le> 60"
    "currentQualityLevel slow_manager \<in> {''low'', ''medium'', ''high'', ''ultra''}"
    "performanceHistory slow_manager = replicate 60 (Num 30)"
    "currentQualityLevel slow_manager = ''medium''"
    by (simp_all add: slow_manager_def OptimizationManager_def)
  show ?thesis
    using adjustQuality_one_step[OF s(2,3,4,5,6), of "Num 30" "Num 120"] s(1)
    by (simp add: Let_def s(7,8) window_avg_slow rank_simps)
qed

section \<open>The force of the worker and the force of the local engine\<close>

lemma fround_demo_forces: "fround (59 / 2) = 59 / 2" "fround (- (1 / 2)) = - (1 / 2)"
  by (simp_all add: fround_eval)

text \<open>
  C1. For the particle at the centre of the canvas, with velocity \<open>(1, 0)\<close>, viscosity
  0.5 and audio influence 1: in the scene \<open>spiral\<close> the local engine stores the force
  \<open>(29.5, 0)\<close> and \<open>calculateForcesBatch\<close> returns \<open>(0, 0)\<close>, since its \<open>switch\<close> has no case
  \<open>spiral\<close>; in the scene \<open>default\<close> the local engine stores the drag \<open>(-0.5, 0)\<close> and
  \<open>calculateForcesBatch\<close> returns \<open>(0, 0)\<close>, since it does not subtract the viscosity
  term. The two paths do not compute the same force.
\<close>

theorem worker_force_differs_from_local:
  "forces (applyParticleForces 0 (particles demo ! 0) 0 (setScene ''spiral'' demo))
     = [Num 29.5, Num 0, Num 0, Num 0]
   \<and> calculateForcesBatch (\<lambda>i. 0)
        \<lparr> fd_particles = [particles demo ! 0], fd_scene = ''spiral'',
          fd_audioInfluence = audioInfluence demo, fd_width = width demo,
          fd_height = height demo \<rparr>
     = [Num 0, Num 0]
   \<and> forces (applyParticleForces 0 (particles demo ! 0) 0 demo)
     = [Num (- 0.5), Num 0, Num 0, Num 0]
   \<and> calculateForcesBatch (\<lambda>i. 0)
        \<lparr> fd_particles = [particles demo ! 0], fd_scene = ''default'',
          fd_audioInfluence = audioInfluence demo, fd_width = width demo,
          fd_height = height demo \<rparr>
     = [Num 0, Num 0]"
  by (simp add: applyParticleForces_def particleForce_def sceneForce_def setScene_def demo_def
      calculateForcesBatch_def workerForce_def Float32Array_def f32set_def atan2_def
      Math_pow2_def numeral_2_eq_2 fround_demo_forces)

section \<open>A worker that reports an error\<close>

text \<open>
  C4. In a pool whose queued tasks have different identifiers and pending promises of
  their own, \<open>handleWorkerError\<close> for the worker \<open>w\<close> removes from the queue exactly the
  tasks assigned to \<open>w\<close> and rejects exactly their promises with the error; the other
  tasks stay in the queue, in their order and with their promises pending; \<open>w\<close> is among
  the available workers afterwards, and nothing is taken from or posted to a worker.
  Every task still queued is resolved with the result of a reply that carries its
  identifier; and the first task that waits unassigned is handed to the last available
  worker by the next \<open>processNextTask\<close>, whose reply resolves it.
\<close>

theorem worker_error_isolated:
  assumes "pool_inv st"
  shows "let st' = handleWorkerError w err st in
      taskQueue st' = filter (\<lambda>t. t_worker t \<noteq> Some w) (taskQueue st)
    \<and> settlements st' = settlements st
        @ map (\<lambda>t. (t_promise t, Rejected err)) (filter (\<lambda>t. t_worker t = Some w) (taskQueue st))
    \<and> (\<forall>t \<in> set (taskQueue st).
          map_of (settlements st') (t_promise t)
            = (if t_worker t = Some w then Some (Rejected err) else None))
    \<and> set (availableWorkers st') = insert w (set (availableWorkers st))
    \<and> inbox st' = inbox st
    \<and> (\<forall>t \<in> set (taskQueue st'). \<forall>v rep. r_taskId rep = t_id t \<longrightarrow>
          map_of (settlements (handleWorkerMessage v rep st')) (t_promise t)
            = Some (Resolved (r_result rep)))
    \<and> (\<forall>i. findIndex (\<lambda>t. t_worker t = None) (taskQueue st') = Some i \<longrightarrow>
          (let t = taskQueue st' ! i; v = last (availableWorkers st'); st'' = processNextTask st'
           in taskQueue st'' = (taskQueue st')[i := t\<lparr> t_worker := Some v \<rparr>]
            \<and> inbox st'' v = inbox st' v @ [message_of t]
            \<and> (\<forall>rep. inbox st' v = [] \<and> onmessage wclock (message_of t) = Some rep \<longrightarrow>
                  map_of (settlements (pool_event wclock (Posts v) st'')) (t_promise t)
                    = Some (Resolved (r_result rep)))))"
proof -
  let ?ts = "filter (\<lambda>t. t_worker t = Some w) (taskQueue st)"
  let ?q = "filter (\<lambda>t. t_worker t \<noteq> Some w) (taskQueue st)"
  let ?st' = "handleWorkerError w err st"
  note eq = handleWorkerError_eq[OF assms, of w err]
  have d: "distinct (map t_promise (taskQueue st))"
    and n: "\<forall>t \<in> set (taskQueue st). map_of (settlements st) (t_promise t) = None"
    using assms by (simp_all add: pool_inv_def)
  have c1: "taskQueue ?st' = ?q" by (simp add: eq)
  have c2: "settlements ?st' = settlements st @ map (\<lambda>t. (t_promise t, Rejected err)) ?ts"
    by (simp add: eq)
  have c3: "\<forall>t \<in> set (taskQueue st).
          map_of (settlements ?st') (t_promise t)
            = (if t_worker t = Some w then Some (Rejected err) else None)"
  proof
    fix t assume t: "t \<in> set (taskQueue st)"
    have p: "map_of (settlements st) (t_promise t) = None" using n t by simp
    show "map_of (settlements ?st') (t_promise t)
            = (if t_worker t = Some w then Some (Rejected err) else None)"
    proof (cases "t_worker t = Some w")
      case True
      then have "t \<in> set ?ts" using t by simp
      moreover have "distinct (map t_promise ?ts)" using d by (simp add: distinct_map_filter)
      ultimately have "map_of (map (\<lambda>t. (t_promise t, Rejected err)) ?ts) (t_promise t)
          = Some (Rejected err)"
        by (simp add: map_of_rejections)
      then show ?thesis using True
        unfolding c2 map_of_append_None[OF p] by simp
    next
      case False
      have "t_promise t \<notin> t_promise ` set ?ts"
      proof
        assume "t_promise t \<in> t_promise ` set ?ts"
        then obtain u where u: "u \<in> set ?ts" "t_promise u = t_promise t" by auto
        then have "u = t" using d t by (auto simp: distinct_map inj_on_def)
        then show False using u(1) False by simp
      qed
      then have "map_of (map (\<lambda>t. (t_promise t, Rejected err)) ?ts) (t_promise t) = None"
        by (rule map_of_rejections_None)
      then show ?thesis using False
        unfolding c2 map_of_append_None[OF p] by simp
    qed
  qed
  have c4: "set (availableWorkers ?st') = insert w (set (availableWorkers st))"
    by (simp add: eq returnWorker_available)
  have c5: "inbox ?st' = inbox st" by (simp add: eq)
  have inv': "pool_inv ?st'" using pool_inv_after_error[OF assms] .
  have c6: "\<forall>t \<in> set (taskQueue ?st'). \<forall>v rep. r_taskId rep = t_id t \<longrightarrow>
          map_of (settlements (handleWorkerMessage v rep ?st')) (t_promise t)
            = Some (Resolved (r_result rep))"
    using message_resolves[OF inv'] by blast
  have c7: "\<forall>i. findIndex (\<lambda>t. t_worker t = None) (taskQueue ?st') = Some i \<longrightarrow>
          (let t = taskQueue ?st' ! i; v = last (availableWorkers ?st'); st'' = processNextTask ?st'
           in taskQueue st'' = (taskQueue ?st')[i := t\<lparr> t_worker := Some v \<rparr>]
            \<and> inbox st'' v = inbox ?st' v @ [message_of t]
            \<and> (\<forall>rep. inbox ?st' v = [] \<and> onmessage wclock (message_of t) = Some rep \<longrightarrow>
                  map_of (settlements (pool_event wclock (Posts v) st'')) (t_promise t)
                    = Some (Resolved (r_result rep))))"
  proof (intro allI impI)
    fix i assume i: "findIndex (\<lambda>t. t_worker t = None) (taskQueue ?st') = Some i"
    let ?t = "taskQueue ?st' ! i"
    let ?v = "last (availableWorkers ?st')"
    let ?st'' = "processNextTask ?st'"
    have ne: "availableWorkers ?st' \<noteq> []" using c4 by auto
    note pe = processNextTask_assigns[OF i ne]
    have il: "i < length (taskQueue ?st')" using findIndex_Some[OF i] by simp
    have a: "taskQueue ?st'' = (taskQueue ?st')[i := ?t\<lparr> t_worker := Some ?v \<rparr>]"
      by (subst pe) simp
    have b: "inbox ?st'' ?v = inbox ?st' ?v @ [message_of ?t]"
      by (subst pe) simp
    have inv'': "pool_inv ?st''"
      by (subst pe) (rule pool_inv_assign[OF inv' il])
    have c: "map_of (settlements (pool_event wclock (Posts ?v) ?st'')) (t_promise ?t)
                    = Some (Resolved (r_result rep))"
      if e: "inbox ?st' ?v = []" and o: "onmessage wclock (message_of ?t) = Some rep" for rep
    proof -
      let ?s1 = "?st''\<lparr> inbox := (inbox ?st'')(?v := []) \<rparr>"
      have ib: "inbox ?st'' ?v = [message_of ?t]" using b e by simp
      have ev: "pool_event wclock (Posts ?v) ?st'' = handleWorkerMessage ?v rep ?s1"
        by (simp add: ib o)
      have inv1: "pool_inv ?s1" using inv'' by (simp add: pool_inv_def)
      have mem: "?t\<lparr> t_worker := Some ?v \<rparr> \<in> set (taskQueue ?s1)"
        using il by (simp add: a set_update_memI)
      have rid: "r_taskId rep = t_id (?t\<lparr> t_worker := Some ?v \<rparr>)"
        using onmessage_taskId[OF o] by (simp add: message_of_def)
      show ?thesis
        unfolding ev using message_resolves[OF inv1 mem rid, of ?v] by simp
    qed
    show "let t = taskQueue ?st' ! i; v = last (availableWorkers ?st'); st'' = processNextTask ?st'
           in taskQueue st'' = (taskQueue ?st')[i := t\<lparr> t_worker := Some v \<rparr>]
            \<and> inbox st'' v = inbox ?st' v @ [message_of t]
            \<and> (\<forall>rep. inbox ?st' v = [] \<and> onmessage wclock (message_of t) = Some rep \<longrightarrow>
                  map_of (settlements (pool_event wclock (Posts v) st'')) (t_promise t)
                    = Some (Resolved (r_result rep)))"
      unfolding Let_def using a b c by blast
  qed
  show ?thesis
    unfolding Let_def by (intro conjI c1 c2 c3 c4 c5 c6 c7[unfolded Let_def])
qed

theorem worker_error_isolated_witness:
  "pool_inv busy_pool
   \<and> taskQueue (handleWorkerError 1 ''boom'' busy_pool) = [job ''b'' 1 (Some 0), job ''c'' 2 None]
   \<and> settlements (handleWorkerError 1 ''boom'' busy_pool) = [(0, Rejected ''boom'')]
   \<and> set (availableWorkers (handleWorkerError 1 ''boom'' busy_pool)) = {1}
   \<and> map_of (settlements (handleWorkerMessage 0
          \<lparr> r_type = ''spatialHashCalculated'', r_result = HashResult Map.empty, r_taskId = ''b'' \<rparr>
          (handleWorkerError 1 ''boom'' busy_pool))) 1
       = Some (Resolved (HashResult Map.empty))
   \<and> map_of (settlements (pool_event (\<lambda>t i. 0) (Posts 1)
          (processNextTask (handleWorkerError 1 ''boom'' busy_pool)))) 2
       = Some (Resolved (HashResult Map.empty))"
proof -
  note T = worker_error_isolated[OF pool_inv_busy, of 1 "''boom''" "\<lambda>t i. 0", unfolded Let_def]
  have q: "taskQueue (handleWorkerError 1 ''boom'' busy_pool) = [job ''b'' 1 (Some 0), job ''c'' 2 None]"
    and a: "availableWorkers (handleWorkerError 1 ''boom'' busy_pool) = [1]"
    and ib: "inbox (handleWorkerError 1 ''boom'' busy_pool) 1 = []"
    unfolding error_on_busy_pool by (simp_all add: busy_pool_def)
  have s: "settlements (handleWorkerError 1 ''boom'' busy_pool) = [(0, Rejected ''boom'')]"
    using T by (simp add: busy_pool_def job_def)
  have av: "set (availableWorkers (handleWorkerError 1 ''boom'' busy_pool)) = {1}"
    using T by (simp add: busy_pool_def)
  have b: "map_of (settlements (handleWorkerMessage 0
          \<lparr> r_type = ''spatialHashCalculated'', r_result = HashResult Map.empty, r_taskId = ''b'' \<rparr>
          (handleWorkerError 1 ''boom'' busy_pool))) 1
       = Some (Resolved (HashResult Map.empty))"
  proof -
    have mem: "job ''b'' 1 (Some 0) \<in> set (taskQueue (handleWorkerError 1 ''boom'' busy_pool))"
      unfolding q by simp
    have rid: "r_taskId \<lparr> r_type = ''spatialHashCalculated'', r_result = HashResult Map.empty,
        r_taskId = ''b'' \<rparr> = t_id (job ''b'' 1 (Some 0))"
      by (simp add: job_def)
    have c6: "\<forall>t \<in> set (taskQueue (handleWorkerError 1 ''boom'' busy_pool)). \<forall>v rep.
          r_taskId rep = t_id t \<longrightarrow>
          map_of (settlements (handleWorkerMessage v rep (handleWorkerError 1 ''boom'' busy_pool)))
            (t_promise t) = Some (Resolved (r_result rep))"
      using T by blast
    have p: "t_promise (job ''b'' 1 (Some 0)) = 1" by (simp add: job_def)
    show ?thesis
      using c6[rule_format, OF mem rid, of 0] unfolding p by simp
  qed
  have fi: "findIndex (\<lambda>t. t_worker t = None) (taskQueue (handleWorkerError 1 ''boom'' busy_pool)) = Some 1"
    unfolding q by (simp add: job_def)
  have c: "map_of (settlements (pool_event (\<lambda>t i. 0) (Posts 1)
          (processNextTask (handleWorkerError 1 ''boom'' busy_pool)))) 2
       = Some (Resolved (HashResult Map.empty))"
  proof -
    have "\<forall>rep. inbox (handleWorkerError 1 ''boom'' busy_pool)
                 (last (availableWorkers (handleWorkerError 1 ''boom'' busy_pool))) = []
              \<and> onmessage (\<lambda>t i. 0)
                   (message_of (taskQueue (handleWorkerError 1 ''boom'' busy_pool) ! 1)) = Some rep
          \<longrightarrow> map_of (settlements (pool_event (\<lambda>t i. 0)
                    (Posts (last (availableWorkers (handleWorkerError 1 ''boom'' busy_pool))))
                    (processNextTask (handleWorkerError 1 ''boom'' busy_pool))))
                 (t_promise (taskQueue (handleWorkerError 1 ''boom'' busy_pool) ! 1))
               = Some (Resolved (r_result rep))"
      using T fi by blast
    then have "map_of (settlements (pool_event (\<lambda>t i. 0) (Posts 1)
                    (processNextTask (handleWorkerError 1 ''boom'' busy_pool))))
                 (t_promise (job ''c'' 2 None))
               = Some (Resolved (HashResult Map.empty))"
      unfolding q a using ib hash_reply[of "\<lambda>t i. 0" "''c''" 2 None] by simp
    then show ?thesis by (simp add: job_def)
  qed
  show ?thesis using pool_inv_busy q s av b c by blast
qed

end
